theory Spec2Isabelle
  imports Main "HOL-Library.Word"
begin

section \<open>The C library functions the utility calls\<close>

text \<open>
  A C string is a \<open>string\<close> (the characters before the terminating NUL). The program never
  calls \<open>setlocale\<close>, so the character functions are those of the C locale. Only the sign of
  what \<open>strcmp\<close> and \<open>strcasecmp\<close> return is fixed by the standard; the model returns
  \<open>-1\<close>, \<open>0\<close> or \<open>1\<close>.
\<close>

definition tolower :: "char \<Rightarrow> char" where
  "tolower c =
     (case map_of (zip ''ABCDEFGHIJKLMNOPQRSTUVWXYZ'' ''abcdefghijklmnopqrstuvwxyz'') c of
        None \<Rightarrow> c
      | Some l \<Rightarrow> l)"

fun strcmp :: "string \<Rightarrow> string \<Rightarrow> int" where
  "strcmp [] [] = 0"
| "strcmp [] (b # bs) = - 1"
| "strcmp (a # as) [] = 1"
| "strcmp (a # as) (b # bs) =
     (if a = b then strcmp as bs
      else if (of_char a :: nat) < of_char b then - 1 else 1)"

fun strcasecmp :: "string \<Rightarrow> string \<Rightarrow> int" where
  "strcasecmp [] [] = 0"
| "strcasecmp [] (b # bs) = - 1"
| "strcasecmp (a # as) [] = 1"
| "strcasecmp (a # as) (b # bs) =
     (if tolower a = tolower b then strcasecmp as bs
      else if (of_char (tolower a) :: nat) < of_char (tolower b) then - 1 else 1)"

definition isspace :: "char \<Rightarrow> bool" where
  "isspace c = ((of_char c :: nat) = 32 \<or> (9 \<le> (of_char c :: nat) \<and> (of_char c :: nat) \<le> 13))"

definition isdigit :: "char \<Rightarrow> bool" where
  "isdigit c = (48 \<le> (of_char c :: nat) \<and> (of_char c :: nat) \<le> 57)"

text \<open>The range of \<open>long\<close> on the LP64 platforms the utility is built for.\<close>

definition LONG_MAX :: int where
  "LONG_MAX = 2 ^ 63 - 1"

definition LONG_MIN :: int where
  "LONG_MIN = - (2 ^ 63)"

text \<open>
  \<open>strtol (str, &end, 10)\<close>: the value and the rest of the string, at which \<open>end\<close> points.
  White space is skipped, then an optional sign, then decimal digits; without a digit nothing is
  converted and \<open>end\<close> is \<open>str\<close>; a value out of range becomes \<open>LONG_MAX\<close> or \<open>LONG_MIN\<close>.
\<close>

fun strtol_digits :: "int \<Rightarrow> string \<Rightarrow> int \<times> string" where
  "strtol_digits acc [] = (acc, [])"
| "strtol_digits acc (c # cs) =
     (if isdigit c then strtol_digits (acc * 10 + (of_char c - 48)) cs else (acc, c # cs))"

definition strtol_sign :: "string \<Rightarrow> bool \<times> string" where
  "strtol_sign s =
     (case s of
        [] \<Rightarrow> (False, [])
      | c # cs \<Rightarrow>
          if c = CHR ''-'' then (True, cs)
          else if c = CHR ''+'' then (False, cs)
          else (False, c # cs))"

definition strtol :: "string \<Rightarrow> int \<times> string" where
  "strtol str =
     (case strtol_sign (dropWhile isspace str) of
        (neg, s) \<Rightarrow>
          (case s of
             [] \<Rightarrow> (0, str)
           | d # ds \<Rightarrow>
               if isdigit d then
                 (case strtol_digits 0 (d # ds) of
                    (v, rest) \<Rightarrow> (if neg then max LONG_MIN (- v) else min LONG_MAX v, rest))
               else (0, str)))"

text \<open>The conversion \<open>%d\<close> of \<open>printf\<close>.\<close>

fun dec_nat :: "nat \<Rightarrow> string" where
  "dec_nat n =
     (if n < 10 then [''0123456789'' ! n]
      else dec_nat (n div 10) @ [''0123456789'' ! (n mod 10)])"

declare dec_nat.simps [simp del]

definition printf_d :: "int \<Rightarrow> string" where
  "printf_d i = (if i < 0 then ''-'' @ dec_nat (nat (- i)) else dec_nat (nat i))"

definition EXIT_SUCCESS :: int where
  "EXIT_SUCCESS = 0"

definition EXIT_FAILURE :: int where
  "EXIT_FAILURE = 1"


section \<open>The USB bus and the process, as the utility sees them\<close>

type_synonym byte = "8 word"

text \<open>
  A device on the bus: its identifiers, what \<open>libusb_get_device_descriptor\<close> returns for it
  and what \<open>libusb_open\<close> returns for it.
\<close>

record usb_device =
  idVendor :: int
  idProduct :: int
  descriptor_result :: int
  open_result :: int

text \<open>
  The calls the utility makes into libusb. The two control transfers are named after their
  request: \<open>Set_report\<close> is the host-to-device transfer of \<open>sensei_send_command\<close>, with its
  buffer, \<open>Get_report\<close> the device-to-host transfer of \<open>sensei_load_config\<close>.
\<close>

datatype usb_call =
    Libusb_init
  | Libusb_get_device_list
  | Libusb_get_device_descriptor usb_device
  | Libusb_open usb_device
  | Libusb_free_device_list
  | Libusb_kernel_driver_active
  | Libusb_detach_kernel_driver
  | Libusb_claim_interface
  | Set_report "byte list"
  | Get_report
  | Libusb_release_interface
  | Libusb_attach_kernel_driver
  | Libusb_close
  | Libusb_exit

text \<open>
  What the surroundings answer. Every libusb function other than the enumeration and the
  host-to-device transfer is called at most once in a run, so one value each describes it; the
  host-to-device transfers of one run carry different buffers, so their results are a function
  of the buffer. \<open>device_list\<close> is \<open>None\<close> when \<open>libusb_get_device_list\<close> returns a negative
  count. \<open>PROJECT_NAME\<close> and \<open>PROJECT_VERSION\<close> are the macros of the generated
  \<open>config.h\<close>.
\<close>

record env =
  PROJECT_NAME :: string
  PROJECT_VERSION :: string
  init_result :: int
  device_list :: "usb_device list option"
  kernel_driver_active_result :: int
  detach_result :: int
  claim_result :: int
  set_report_result :: "byte list \<Rightarrow> int"
  get_report_result :: int
  get_report_data :: "byte list"
  release_result :: int
  attach_result :: int
  libusb_error_name :: "int \<Rightarrow> string"

text \<open>What the process has done so far: its libusb calls in order, and its two streams.\<close>

record world =
  calls :: "usb_call list"
  stdout :: string
  stderr :: string

definition call :: "usb_call \<Rightarrow> world \<Rightarrow> world" where
  "call c w = w\<lparr>calls := calls w @ [c]\<rparr>"

definition printf :: "string \<Rightarrow> world \<Rightarrow> world" where
  "printf s w = w\<lparr>stdout := stdout w @ s\<rparr>"

definition fprintf_stderr :: "string \<Rightarrow> world \<Rightarrow> world" where
  "fprintf_stderr s w = w\<lparr>stderr := stderr w @ s\<rparr>"

text \<open>
  A function that can end the process returns \<open>Inl\<close> with how it ended: \<open>exit (status)\<close>, or
  a failed \<open>assert\<close>.
\<close>

datatype halt = Exit int | Abort

type_synonym 'a run = "halt \<times> world + 'a \<times> world"


section \<open>Utilities\<close>

text \<open>
  The loop of \<open>find_device\<close> over the list: a device whose descriptor cannot be read is
  skipped, the first one with the given identifiers is found.
\<close>

fun find_device_loop :: "int \<Rightarrow> int \<Rightarrow> usb_device list \<Rightarrow> world \<Rightarrow> usb_device option \<times> world" where
  "find_device_loop vendor product [] w = (None, w)"
| "find_device_loop vendor product (device # rest) w =
     (let w1 = call (Libusb_get_device_descriptor device) w in
      if descriptor_result device \<noteq> 0 then find_device_loop vendor product rest w1
      else if idVendor device = vendor \<and> idProduct device = product then (Some device, w1)
      else find_device_loop vendor product rest w1)"

text \<open>
  \<open>find_device\<close> returns the handle (\<open>None\<close> for \<open>NULL\<close>) and the value of \<open>*error\<close>
  afterwards, which it writes only when \<open>libusb_open\<close> failed.
\<close>

definition find_device :: "env \<Rightarrow> int \<Rightarrow> int \<Rightarrow> int \<Rightarrow> world \<Rightarrow> (usb_device option \<times> int) \<times> world" where
  "find_device e vendor product error w =
     (let w1 = call Libusb_get_device_list w in
      case device_list e of
        None \<Rightarrow> ((None, error), w1)
      | Some list \<Rightarrow>
          (case find_device_loop vendor product list w1 of
             (None, w2) \<Rightarrow> ((None, error), call Libusb_free_device_list w2)
           | (Some found, w2) \<Rightarrow>
               (let w3 = call (Libusb_open found) w2;
                    err = open_result found
                in if err \<noteq> 0 then ((None, err), call Libusb_free_device_list w3)
                   else ((Some found, error), call Libusb_free_device_list w3))))"

fun find_device_list_loop ::
  "env \<Rightarrow> int \<Rightarrow> int list \<Rightarrow> int \<Rightarrow> world \<Rightarrow> (usb_device option \<times> int) \<times> world" where
  "find_device_list_loop e vendor [] err w = ((None, err), w)"
| "find_device_list_loop e vendor (product # products) err w =
     (case find_device e vendor product err w of
        ((Some handle, err1), w1) \<Rightarrow> ((Some handle, err1), w1)
      | ((None, err1), w1) \<Rightarrow>
          if err1 \<noteq> 0 then ((None, err1), w1)
          else find_device_list_loop e vendor products err1 w1)"

definition find_device_list ::
  "env \<Rightarrow> int \<Rightarrow> int list \<Rightarrow> int \<Rightarrow> world \<Rightarrow> (usb_device option \<times> int) \<times> world" where
  "find_device_list e vendor products error w =
     (case find_device_list_loop e vendor products 0 w of
        ((Some handle, err), w1) \<Rightarrow> ((Some handle, error), w1)
      | ((None, err), w1) \<Rightarrow> ((None, if err \<noteq> 0 then err else error), w1))"


section \<open>Device configuration\<close>

definition USB_VENDOR_STEELSERIES :: int where
  "USB_VENDOR_STEELSERIES = 0x1038"

definition USB_PRODUCT_STEELSERIES_SENSEI_RAW :: int where
  "USB_PRODUCT_STEELSERIES_SENSEI_RAW = 0x1369"

definition USB_PRODUCT_STEELSERIES_COD_BO2 :: int where
  "USB_PRODUCT_STEELSERIES_COD_BO2 = 0x136f"

definition SENSEI_CPI_MIN :: int where
  "SENSEI_CPI_MIN = 0x01"

definition SENSEI_CPI_MAX :: int where
  "SENSEI_CPI_MAX = 0x3f"

definition SENSEI_CPI_STEP :: int where
  "SENSEI_CPI_STEP = 90"

text \<open>
  The enumerations are C \<open>enum\<close>s, that is integers: \<open>sensei_load_config\<close> stores any byte of
  the report in them. The enumerators are constants, numbered as the source numbers them.
\<close>

definition PULSATION_STEADY :: int where "PULSATION_STEADY = 1"
definition PULSATION_SLOW :: int where "PULSATION_SLOW = PULSATION_STEADY + 1"
definition PULSATION_MEDIUM :: int where "PULSATION_MEDIUM = PULSATION_SLOW + 1"
definition PULSATION_FAST :: int where "PULSATION_FAST = PULSATION_MEDIUM + 1"

definition MODE_LEGACY :: int where "MODE_LEGACY = 1"
definition MODE_NORMAL :: int where "MODE_NORMAL = MODE_LEGACY + 1"

definition INTENSITY_OFF :: int where "INTENSITY_OFF = 1"
definition INTENSITY_LOW :: int where "INTENSITY_LOW = INTENSITY_OFF + 1"
definition INTENSITY_MEDIUM :: int where "INTENSITY_MEDIUM = INTENSITY_LOW + 1"
definition INTENSITY_HIGH :: int where "INTENSITY_HIGH = INTENSITY_MEDIUM + 1"

definition POLLING_1000_HZ :: int where "POLLING_1000_HZ = 1"
definition POLLING_500_HZ :: int where "POLLING_500_HZ = POLLING_1000_HZ + 1"
definition POLLING_250_HZ :: int where "POLLING_250_HZ = POLLING_500_HZ + 1"
definition POLLING_125_HZ :: int where "POLLING_125_HZ = POLLING_250_HZ + 1"

text \<open>The enumerators of each enumeration, in the order of their declaration.\<close>

definition sensei_pulsation :: "int list" where
  "sensei_pulsation = [PULSATION_STEADY, PULSATION_SLOW, PULSATION_MEDIUM, PULSATION_FAST]"

definition sensei_mode :: "int list" where
  "sensei_mode = [MODE_LEGACY, MODE_NORMAL]"

definition sensei_intensity :: "int list" where
  "sensei_intensity = [INTENSITY_OFF, INTENSITY_LOW, INTENSITY_MEDIUM, INTENSITY_HIGH]"

definition sensei_polling :: "int list" where
  "sensei_polling = [POLLING_1000_HZ, POLLING_500_HZ, POLLING_250_HZ, POLLING_125_HZ]"

record sensei_config =
  mode :: int
  cpi_off :: int
  cpi_on :: int
  pulsation :: int
  intensity :: int
  polling :: int

text \<open>
  \<open>libusb_control_transfer\<close> returns the number of bytes transferred, or a negative error.
\<close>

definition sensei_send_command :: "env \<Rightarrow> byte list \<Rightarrow> world \<Rightarrow> int \<times> world" where
  "sensei_send_command e data w =
     (let result = set_report_result e data
      in (if result < 0 then result else 0, call (Set_report data) w))"

text \<open>
  \<open>unsigned char cmd[32] = { a, b, c }\<close>: the initialisers converted to \<open>unsigned char\<close>,
  the remaining elements zero.
\<close>

definition cmd32 :: "int list \<Rightarrow> byte list" where
  "cmd32 init = map word_of_int init @ replicate (32 - length init) 0"

definition sensei_set_mode :: "env \<Rightarrow> int \<Rightarrow> world \<Rightarrow> int \<times> world" where
  "sensei_set_mode e m w = sensei_send_command e (cmd32 [0x02, 0x00, m]) w"

definition sensei_set_intensity :: "env \<Rightarrow> int \<Rightarrow> world \<Rightarrow> int \<times> world" where
  "sensei_set_intensity e i w = sensei_send_command e (cmd32 [0x05, 0x01, i]) w"

definition sensei_set_pulsation :: "env \<Rightarrow> int \<Rightarrow> world \<Rightarrow> int \<times> world" where
  "sensei_set_pulsation e p w = sensei_send_command e (cmd32 [0x07, 0x01, p]) w"

definition sensei_set_cpi :: "env \<Rightarrow> int \<Rightarrow> bool \<Rightarrow> world \<Rightarrow> int run" where
  "sensei_set_cpi e cpi led_status w =
     (if cpi \<ge> SENSEI_CPI_MIN \<and> cpi \<le> SENSEI_CPI_MAX
      then Inr (sensei_send_command e (cmd32 [0x03, if led_status then 2 else 1, cpi]) w)
      else Inl (Abort, w))"

definition sensei_set_polling :: "env \<Rightarrow> int \<Rightarrow> world \<Rightarrow> int \<times> world" where
  "sensei_set_polling e p w = sensei_send_command e (cmd32 [0x04, 0x00, p]) w"

definition sensei_save_to_rom :: "env \<Rightarrow> world \<Rightarrow> int \<times> world" where
  "sensei_save_to_rom e w = sensei_send_command e (cmd32 [0x09, 0x00, 0x00]) w"

text \<open>
  \<open>sensei_load_config\<close> returns its result and the configuration it was given, with the five
  fields read from the report; \<open>mode\<close> is left as it was.
\<close>

definition sensei_load_config :: "env \<Rightarrow> sensei_config \<Rightarrow> world \<Rightarrow> (int \<times> sensei_config) \<times> world" where
  "sensei_load_config e config w =
     (let data = get_report_data e;
          result = get_report_result e;
          w1 = call Get_report w
      in if result < 0 then ((result, config), w1)
         else ((0, config\<lparr>intensity := uint (data ! 102),
                          pulsation := uint (data ! 103),
                          cpi_off := uint (data ! 107),
                          cpi_on := uint (data ! 108),
                          polling := uint (data ! 128)\<rparr>), w1))"


section \<open>Control utility\<close>

definition sensei_display_config :: "sensei_config \<Rightarrow> world \<Rightarrow> world" where
  "sensei_display_config config w =
     (let w1 = printf ''Backlight intensity: '' w;
          w2 = (if intensity config = INTENSITY_OFF then printf ''off\<newline>'' w1
                else if intensity config = INTENSITY_LOW then printf ''low\<newline>'' w1
                else if intensity config = INTENSITY_MEDIUM then printf ''medium\<newline>'' w1
                else if intensity config = INTENSITY_HIGH then printf ''high\<newline>'' w1
                else printf ''unknown\<newline>'' w1);
          w3 = printf ''Backlight pulsation: '' w2;
          w4 = (if pulsation config = PULSATION_STEADY then printf ''steady\<newline>'' w3
                else if pulsation config = PULSATION_SLOW then printf ''slow\<newline>'' w3
                else if pulsation config = PULSATION_MEDIUM then printf ''medium\<newline>'' w3
                else if pulsation config = PULSATION_FAST then printf ''fast\<newline>'' w3
                else printf ''unknown\<newline>'' w3);
          w5 = printf (''Speed in CPI (LED is off): '' @ printf_d (90 * cpi_off config) @ ''\<newline>'') w4;
          w6 = printf (''Speed in CPI (LED is on): '' @ printf_d (90 * cpi_on config) @ ''\<newline>'') w5;
          w7 = printf ''Polling frequency: '' w6
      in if polling config = POLLING_1000_HZ then printf ''1000Hz\<newline>'' w7
         else if polling config = POLLING_500_HZ then printf ''500Hz\<newline>'' w7
         else if polling config = POLLING_250_HZ then printf ''250Hz\<newline>'' w7
         else if polling config = POLLING_125_HZ then printf ''125Hz\<newline>'' w7
         else printf ''unknown\<newline>'' w7)"

record options =
  show_config :: bool
  save_to_rom :: bool
  set_pulsation :: bool
  set_mode :: bool
  set_intensity :: bool
  set_polling :: bool
  set_cpi_off :: bool
  set_cpi_on :: bool

definition show_usage :: "string \<Rightarrow> world \<Rightarrow> world" where
  "show_usage program_name w =
     printf (''Usage: '' @ program_name @ '' [OPTION]...\<newline>''
       @ ''Configure SteelSeries Sensei Raw devices.\<newline>\<newline>''
       @ ''  -h, --help      Show this help\<newline>''
       @ ''  --version       Show program version and exit\<newline>''
       @ ''  --show          Show current mouse settings and exit\<newline>''
       @ ''  --mode X        Set the mode of the mouse''
       @ '' (can be either 'legacy' or 'normal')\<newline>''
       @ ''  --polling X     Set polling to X Hz (1000, 500, 250, 125)\<newline>''
       @ ''  --cpi-on X      Set CPI with the LED on to X\<newline>''
       @ ''  --cpi-off X     Set CPI with the LED off to X\<newline>''
       @ ''  --pulsation X   Set the pulsation mode''
       @ '' (steady, slow, medium, fast)\<newline>''
       @ ''  --intensity X   Set the backlight intensity''
       @ '' (off, low, medium, high)\<newline>''
       @ ''  --save          Save the current configuration to ROM\<newline>''
       @ ''\<newline>'') w"

text \<open>Integer division of C, which truncates towards zero.\<close>

definition c_div :: "int \<Rightarrow> int \<Rightarrow> int" where
  "c_div a b = (if (a < 0) = (b < 0) then \<bar>a\<bar> div \<bar>b\<bar> else - (\<bar>a\<bar> div \<bar>b\<bar>))"

definition encode_cpi :: "string \<Rightarrow> world \<Rightarrow> int run" where
  "encode_cpi str w =
     (case strtol str of
        (cpi, end) \<Rightarrow>
          if str = [] \<or> end \<noteq> [] \<or> cpi < 0
          then Inl (Exit EXIT_FAILURE, fprintf_stderr ''Error: invalid CPI value\<newline>'' w)
          else
            (let cpi1 = c_div cpi SENSEI_CPI_STEP;
                 w1 = (if cpi1 < 1
                       then fprintf_stderr (''Notice: CPI too low, using ''
                              @ printf_d (SENSEI_CPI_MIN * SENSEI_CPI_STEP) @ ''\<newline>'') w
                       else w);
                 cpi2 = (if cpi1 < 1 then 1 else cpi1);
                 w2 = (if cpi2 > SENSEI_CPI_MAX
                       then fprintf_stderr (''Notice: CPI too high, using ''
                              @ printf_d (SENSEI_CPI_MAX * SENSEI_CPI_STEP) @ ''\<newline>'') w1
                       else w1);
                 cpi3 = (if cpi2 > SENSEI_CPI_MAX then SENSEI_CPI_MAX else cpi2)
             in Inr (cpi3, w2)))"

text \<open>
  The command line, as \<open>getopt_long\<close> hands it to \<open>parse_options\<close>: \<open>argc\<close>, \<open>argv[0]\<close>,
  the values \<open>getopt_long\<close> returns before \<open>-1\<close>, each with \<open>optarg\<close> at that moment (the
  character of the matching row of \<open>long_opts\<close>, or \<open>?\<close>), and whether \<open>optind < argc\<close>
  once it has returned \<open>-1\<close>.
\<close>

record cmdline =
  argc :: nat
  argv0 :: string
  getopt_long :: "(char \<times> string) list"
  extra_parameters :: bool

text \<open>One turn of the loop of \<open>parse_options\<close>: the \<open>switch\<close> on what \<open>getopt_long\<close> returned.\<close>

definition parse_option ::
  "env \<Rightarrow> string \<Rightarrow> char \<Rightarrow> string \<Rightarrow> options \<times> sensei_config \<Rightarrow> world
     \<Rightarrow> (options \<times> sensei_config) run" where
  "parse_option e program_name c optarg oc w =
     (case oc of
        (opts, new_config) \<Rightarrow>
     if c = CHR ''h'' then Inl (Exit EXIT_SUCCESS, show_usage program_name w)
     else if c = CHR ''V'' then
       Inl (Exit EXIT_SUCCESS, printf (PROJECT_NAME e @ '' '' @ PROJECT_VERSION e @ ''\<newline>'') w)
     else if c = CHR ''s'' then Inr ((opts\<lparr>show_config := True\<rparr>, new_config), w)
     else if c = CHR ''S'' then Inr ((opts\<lparr>save_to_rom := True\<rparr>, new_config), w)
     else if c = CHR ''m'' then
       (if strcasecmp optarg ''legacy'' = 0
        then Inr ((opts\<lparr>set_mode := True\<rparr>, new_config\<lparr>mode := MODE_LEGACY\<rparr>), w)
        else if strcasecmp optarg ''normal'' = 0
        then Inr ((opts\<lparr>set_mode := True\<rparr>, new_config\<lparr>mode := MODE_NORMAL\<rparr>), w)
        else Inl (Exit EXIT_FAILURE,
                  fprintf_stderr (''Error: invalid mode: '' @ optarg @ ''\<newline>'') w))
     else if c = CHR ''p'' then
       (if strcmp optarg ''1000'' = 0
        then Inr ((opts\<lparr>set_polling := True\<rparr>, new_config\<lparr>polling := POLLING_1000_HZ\<rparr>), w)
        else if strcmp optarg ''500'' = 0
        then Inr ((opts\<lparr>set_polling := True\<rparr>, new_config\<lparr>polling := POLLING_500_HZ\<rparr>), w)
        else if strcmp optarg ''250'' = 0
        then Inr ((opts\<lparr>set_polling := True\<rparr>, new_config\<lparr>polling := POLLING_250_HZ\<rparr>), w)
        else if strcmp optarg ''125'' = 0
        then Inr ((opts\<lparr>set_polling := True\<rparr>, new_config\<lparr>polling := POLLING_125_HZ\<rparr>), w)
        else Inl (Exit EXIT_FAILURE,
                  fprintf_stderr (''Error: invalid polling frequency: '' @ optarg @ ''\<newline>'') w))
     else if c = CHR ''c'' then
       (case encode_cpi optarg w of
          Inl h \<Rightarrow> Inl h
        | Inr (cpi, w1) \<Rightarrow> Inr ((opts\<lparr>set_cpi_on := True\<rparr>, new_config\<lparr>cpi_on := cpi\<rparr>), w1))
     else if c = CHR ''C'' then
       (case encode_cpi optarg w of
          Inl h \<Rightarrow> Inl h
        | Inr (cpi, w1) \<Rightarrow> Inr ((opts\<lparr>set_cpi_off := True\<rparr>, new_config\<lparr>cpi_off := cpi\<rparr>), w1))
     else if c = CHR ''P'' then
       (if strcasecmp optarg ''steady'' = 0
        then Inr ((opts\<lparr>set_pulsation := True\<rparr>, new_config\<lparr>pulsation := PULSATION_STEADY\<rparr>), w)
        else if strcasecmp optarg ''slow'' = 0
        then Inr ((opts\<lparr>set_pulsation := True\<rparr>, new_config\<lparr>pulsation := PULSATION_SLOW\<rparr>), w)
        else if strcasecmp optarg ''medium'' = 0
        then Inr ((opts\<lparr>set_pulsation := True\<rparr>, new_config\<lparr>pulsation := PULSATION_MEDIUM\<rparr>), w)
        else if strcasecmp optarg ''fast'' = 0
        then Inr ((opts\<lparr>set_pulsation := True\<rparr>, new_config\<lparr>pulsation := PULSATION_FAST\<rparr>), w)
        else Inl (Exit EXIT_FAILURE,
                  fprintf_stderr (''Error: invalid backlight pulsation: '' @ optarg @ ''\<newline>'') w))
     else if c = CHR ''i'' then
       (if strcasecmp optarg ''off'' = 0
        then Inr ((opts\<lparr>set_intensity := True\<rparr>, new_config\<lparr>intensity := INTENSITY_OFF\<rparr>), w)
        else if strcasecmp optarg ''low'' = 0
        then Inr ((opts\<lparr>set_intensity := True\<rparr>, new_config\<lparr>intensity := INTENSITY_LOW\<rparr>), w)
        else if strcasecmp optarg ''medium'' = 0
        then Inr ((opts\<lparr>set_intensity := True\<rparr>, new_config\<lparr>intensity := INTENSITY_MEDIUM\<rparr>), w)
        else if strcasecmp optarg ''high'' = 0
        then Inr ((opts\<lparr>set_intensity := True\<rparr>, new_config\<lparr>intensity := INTENSITY_HIGH\<rparr>), w)
        else Inl (Exit EXIT_FAILURE,
                  fprintf_stderr (''Error: invalid backlight intensity: '' @ optarg @ ''\<newline>'') w))
     else if c = CHR ''?'' then Inl (Exit EXIT_FAILURE, w)
     else Inr ((opts, new_config), w))"

fun parse_options_loop ::
  "env \<Rightarrow> string \<Rightarrow> (char \<times> string) list \<Rightarrow> options \<times> sensei_config \<Rightarrow> world
     \<Rightarrow> (options \<times> sensei_config) run" where
  "parse_options_loop e program_name [] oc w = Inr (oc, w)"
| "parse_options_loop e program_name ((c, optarg) # rest) oc w =
     (case parse_option e program_name c optarg oc w of
        Inl h \<Rightarrow> Inl h
      | Inr (oc1, w1) \<Rightarrow> parse_options_loop e program_name rest oc1 w1)"

definition parse_options ::
  "env \<Rightarrow> cmdline \<Rightarrow> options \<times> sensei_config \<Rightarrow> world \<Rightarrow> (options \<times> sensei_config) run" where
  "parse_options e cl oc w =
     (if argc cl = 1 then Inl (Exit EXIT_FAILURE, show_usage (argv0 cl) w)
      else
        (case parse_options_loop e (argv0 cl) (getopt_long cl) oc w of
           Inl h \<Rightarrow> Inl h
         | Inr (oc1, w1) \<Rightarrow>
             if extra_parameters cl
             then Inl (Exit EXIT_FAILURE, fprintf_stderr ''Error: extra parameters\<newline>'' w1)
             else Inr (oc1, w1)))"


text \<open>
  The local \<open>config\<close> of \<open>apply_options\<close> is not initialised. \<open>sensei_load_config\<close>
  overwrites five of its fields before they are read and \<open>mode\<close> is never read, so the
  model starts it at zero.
\<close>

definition uninitialised_config :: sensei_config where
  "uninitialised_config =
     \<lparr>mode = 0, cpi_off = 0, cpi_on = 0, pulsation = 0, intensity = 0, polling = 0\<rparr>"

text \<open>
  The seven guarded writes of \<open>apply_options\<close> after the \<open>show_config\<close> branch, each one
  returning early on a result other than zero.
\<close>

definition apply_save_to_rom :: "env \<Rightarrow> options \<Rightarrow> world \<Rightarrow> int run" where
  "apply_save_to_rom e opts w =
     (if save_to_rom opts then
        (case sensei_save_to_rom e w of
           (result, w1) \<Rightarrow> if result \<noteq> 0 then Inr (result, w1) else Inr (0, w1))
      else Inr (0, w))"

definition apply_cpi_on :: "env \<Rightarrow> options \<Rightarrow> sensei_config \<Rightarrow> world \<Rightarrow> int run" where
  "apply_cpi_on e opts new_config w =
     (if set_cpi_on opts then
        (case sensei_set_cpi e (cpi_on new_config) True w of
           Inl h \<Rightarrow> Inl h
         | Inr (result, w1) \<Rightarrow>
             if result \<noteq> 0 then Inr (result, w1) else apply_save_to_rom e opts w1)
      else apply_save_to_rom e opts w)"

definition apply_cpi_off :: "env \<Rightarrow> options \<Rightarrow> sensei_config \<Rightarrow> world \<Rightarrow> int run" where
  "apply_cpi_off e opts new_config w =
     (if set_cpi_off opts then
        (case sensei_set_cpi e (cpi_off new_config) False w of
           Inl h \<Rightarrow> Inl h
         | Inr (result, w1) \<Rightarrow>
             if result \<noteq> 0 then Inr (result, w1) else apply_cpi_on e opts new_config w1)
      else apply_cpi_on e opts new_config w)"

definition apply_pulsation :: "env \<Rightarrow> options \<Rightarrow> sensei_config \<Rightarrow> world \<Rightarrow> int run" where
  "apply_pulsation e opts new_config w =
     (if set_pulsation opts then
        (case sensei_set_pulsation e (pulsation new_config) w of
           (result, w1) \<Rightarrow>
             if result \<noteq> 0 then Inr (result, w1) else apply_cpi_off e opts new_config w1)
      else apply_cpi_off e opts new_config w)"

definition apply_intensity :: "env \<Rightarrow> options \<Rightarrow> sensei_config \<Rightarrow> world \<Rightarrow> int run" where
  "apply_intensity e opts new_config w =
     (if set_intensity opts then
        (case sensei_set_intensity e (intensity new_config) w of
           (result, w1) \<Rightarrow>
             if result \<noteq> 0 then Inr (result, w1) else apply_pulsation e opts new_config w1)
      else apply_pulsation e opts new_config w)"

definition apply_polling :: "env \<Rightarrow> options \<Rightarrow> sensei_config \<Rightarrow> world \<Rightarrow> int run" where
  "apply_polling e opts new_config w =
     (if set_polling opts then
        (case sensei_set_polling e (polling new_config) w of
           (result, w1) \<Rightarrow>
             if result \<noteq> 0 then Inr (result, w1) else apply_intensity e opts new_config w1)
      else apply_intensity e opts new_config w)"

definition apply_mode :: "env \<Rightarrow> options \<Rightarrow> sensei_config \<Rightarrow> world \<Rightarrow> int run" where
  "apply_mode e opts new_config w =
     (if set_mode opts then
        (case sensei_set_mode e (mode new_config) w of
           (result, w1) \<Rightarrow>
             if result \<noteq> 0 then Inr (result, w1) else apply_polling e opts new_config w1)
      else apply_polling e opts new_config w)"

definition apply_options :: "env \<Rightarrow> options \<Rightarrow> sensei_config \<Rightarrow> world \<Rightarrow> int run" where
  "apply_options e opts new_config w =
     (if show_config opts then
        (case sensei_load_config e uninitialised_config w of
           ((result, config), w1) \<Rightarrow>
             if result \<noteq> 0 then Inr (result, w1)
             else Inr (0, sensei_display_config config w1))
      else apply_mode e opts new_config w)"

text \<open>
  The macro \<open>ERROR\<close> prints its message after \<open>Error: \<close>; the assignment \<open>status = 1\<close>
  and the \<open>goto\<close> are written out where the macro is used. The labels of \<open>main\<close> are
  functions from the status so far to the status \<open>main\<close> returns.
\<close>

definition ERROR :: "string \<Rightarrow> world \<Rightarrow> world" where
  "ERROR msg w = fprintf_stderr (''Error: '' @ msg) w"

definition LIBUSB_ERROR_NOT_SUPPORTED :: int where
  "LIBUSB_ERROR_NOT_SUPPORTED = - 12"

definition error_0 :: "int \<Rightarrow> world \<Rightarrow> int \<times> world" where
  "error_0 status w = (status, w)"

definition error_1 :: "int \<Rightarrow> world \<Rightarrow> int \<times> world" where
  "error_1 status w = error_0 status (call Libusb_exit w)"

definition error_2 :: "int \<Rightarrow> world \<Rightarrow> int \<times> world" where
  "error_2 status w = error_1 status (call Libusb_close w)"

definition error_3 :: "env \<Rightarrow> bool \<Rightarrow> int \<Rightarrow> world \<Rightarrow> int \<times> world" where
  "error_3 e reattach_driver status w =
     (if reattach_driver then
        (let w1 = call Libusb_attach_kernel_driver w;
             result = attach_result e
         in if result \<noteq> 0
            then error_2 1 (ERROR (''couldn't reattach kernel driver: ''
                   @ libusb_error_name e result @ ''\<newline>'') w1)
            else error_2 status w1)
      else error_2 status w)"

definition error_4 :: "env \<Rightarrow> bool \<Rightarrow> int \<Rightarrow> world \<Rightarrow> int \<times> world" where
  "error_4 e reattach_driver status w =
     (let w1 = call Libusb_release_interface w;
          result = release_result e
      in if result \<noteq> 0
         then error_3 e reattach_driver 1 (ERROR (''couldn't release interface: ''
                @ libusb_error_name e result @ ''\<newline>'') w1)
         else error_3 e reattach_driver status w1)"

text \<open>\<open>main\<close> from the claim of the interface on, with the flag \<open>reattach_driver\<close> as it is then.\<close>

definition main_claim :: "env \<Rightarrow> options \<Rightarrow> sensei_config \<Rightarrow> bool \<Rightarrow> int \<Rightarrow> world \<Rightarrow> int run" where
  "main_claim e opts new_config reattach_driver status w =
     (let w1 = call Libusb_claim_interface w;
          result = claim_result e
      in if result \<noteq> 0
         then Inr (error_3 e reattach_driver 1 (ERROR (''couldn't claim interface: ''
                @ libusb_error_name e result @ ''\<newline>'') w1))
         else
           (case apply_options e opts new_config w1 of
              Inl h \<Rightarrow> Inl h
            | Inr (result, w2) \<Rightarrow>
                if result \<noteq> 0
                then Inr (error_4 e reattach_driver 1 (ERROR (''operation failed: ''
                       @ libusb_error_name e result @ ''\<newline>'') w2))
                else Inr (error_4 e reattach_driver status w2)))"

text \<open>\<open>main\<close> from the query for a kernel driver on, once a device is open.\<close>

definition main_opened :: "env \<Rightarrow> options \<Rightarrow> sensei_config \<Rightarrow> int \<Rightarrow> world \<Rightarrow> int run" where
  "main_opened e opts new_config status w =
     (let w1 = call Libusb_kernel_driver_active w;
          result = kernel_driver_active_result e
      in if result = 0 \<or> result = LIBUSB_ERROR_NOT_SUPPORTED
         then main_claim e opts new_config False status w1
         else if result = 1 then
           (let w2 = call Libusb_detach_kernel_driver w1;
                result = detach_result e
            in if result \<noteq> 0
               then Inr (error_2 1 (ERROR (''couldn't detach kernel driver: ''
                      @ libusb_error_name e result @ ''\<newline>'') w2))
               else main_claim e opts new_config True status w2)
         else Inr (error_2 1 (ERROR (''coudn't detect kernel driver presence: ''
                @ libusb_error_name e result @ ''\<newline>'') w1)))"

definition products :: "int list" where
  "products = [USB_PRODUCT_STEELSERIES_SENSEI_RAW, USB_PRODUCT_STEELSERIES_COD_BO2]"

text \<open>\<open>main\<close> from the search for the device on, once libusb is initialised.\<close>

definition main_discover :: "env \<Rightarrow> options \<Rightarrow> sensei_config \<Rightarrow> int \<Rightarrow> world \<Rightarrow> int run" where
  "main_discover e opts new_config status w =
     (case find_device_list e USB_VENDOR_STEELSERIES products 0 w of
        ((None, result), w1) \<Rightarrow>
          if result \<noteq> 0
          then Inr (error_1 1 (ERROR (''couldn't open device: ''
                 @ libusb_error_name e result @ ''\<newline>'') w1))
          else Inr (error_1 1 (ERROR ''no suitable device found\<newline>'' w1))
      | ((Some device, result), w1) \<Rightarrow> main_opened e opts new_config status w1)"

definition options_0 :: options where
  "options_0 =
     \<lparr>show_config = False, save_to_rom = False, set_pulsation = False, set_mode = False,
      set_intensity = False, set_polling = False, set_cpi_off = False, set_cpi_on = False\<rparr>"

definition new_config_0 :: sensei_config where
  "new_config_0 =
     \<lparr>mode = 0, cpi_off = 0, cpi_on = 0, pulsation = 0, intensity = 0, polling = 0\<rparr>"

text \<open>
  \<open>main\<close>: \<open>Inr\<close> with the status it returns, \<open>Inl\<close> when \<open>parse_options\<close> called \<open>exit\<close>
  or an assertion failed.
\<close>

definition main :: "env \<Rightarrow> cmdline \<Rightarrow> world \<Rightarrow> int run" where
  "main e cl w =
     (case parse_options e cl (options_0, new_config_0) w of
        Inl h \<Rightarrow> Inl h
      | Inr ((opts, new_config), w1) \<Rightarrow>
          (let status = 0;
               w2 = call Libusb_init w1;
               result = init_result e
           in if result \<noteq> 0
              then Inr (error_0 1 (ERROR (''libusb initialisation failed: ''
                     @ libusb_error_name e result @ ''\<newline>'') w2))
              else main_discover e opts new_config status w2))"


section \<open>The graphical front end\<close>

text \<open>
  The argument vectors the two mode buttons hand to \<open>spawn_ctl\<close>; \<open>bindir\<close> stands for the
  macro \<open>PROJECT_INSTALL_BINDIR\<close> of \<open>config.h\<close>.
\<close>

definition on_set_mode_normal :: "env \<Rightarrow> string \<Rightarrow> string list" where
  "on_set_mode_normal e bindir = [''pkexec'', bindir @ ''/'' @ PROJECT_NAME e, ''--mode'', ''normal'']"

definition on_set_mode_legacy :: "env \<Rightarrow> string \<Rightarrow> string list" where
  "on_set_mode_legacy e bindir = [''pkexec'', bindir @ ''/'' @ PROJECT_NAME e, ''--mode'', ''compat'']"

text \<open>
  The table \<open>long_opts\<close> of \<open>parse_options\<close>: name, whether the option takes an argument,
  and the value \<open>getopt_long\<close> returns for it.
\<close>

definition long_opts :: "(string \<times> bool \<times> char) list" where
  "long_opts =
     [(''help'', False, CHR ''h''),
      (''version'', False, CHR ''V''),
      (''show'', False, CHR ''s''),
      (''save'', False, CHR ''S''),
      (''mode'', True, CHR ''m''),
      (''polling'', True, CHR ''p''),
      (''cpi-on'', True, CHR ''c''),
      (''cpi-off'', True, CHR ''C''),
      (''pulsation'', True, CHR ''P''),
      (''intensity'', True, CHR ''i'')]"

definition long_opt :: "string \<Rightarrow> (bool \<times> char) option" where
  "long_opt a = (if take 2 a = ''--'' then map_of long_opts (drop 2 a) else None)"

text \<open>
  What \<open>getopt_long\<close> returns on arguments that are all long options written out in full,
  each followed by its argument as the next word when it takes one: the only form the front end
  uses. Every other form (abbreviations, \<open>--name=value\<close>, \<open>-h\<close>, words that are no options,
  a missing argument) is left out: the result is \<open>None\<close>.
\<close>

fun getopt_long_words :: "string list \<Rightarrow> (char \<times> string) list option" where
  "getopt_long_words [] = Some []"
| "getopt_long_words [a] =
     (case long_opt a of
        Some (False, val) \<Rightarrow> Some [(val, [])]
      | _ \<Rightarrow> None)"
| "getopt_long_words (a # b # rest) =
     (case long_opt a of
        None \<Rightarrow> None
      | Some (True, val) \<Rightarrow> map_option ((#) (val, b)) (getopt_long_words rest)
      | Some (False, val) \<Rightarrow> map_option ((#) (val, [])) (getopt_long_words (b # rest)))"

text \<open>
  The command line of the utility when \<open>pkexec\<close> runs it with the arguments of \<open>spawn_ctl\<close>.
\<close>

definition spawn_ctl_cmdline :: "string list \<Rightarrow> cmdline option" where
  "spawn_ctl_cmdline argv =
     (case argv of
        pkexec # program # args \<Rightarrow>
          map_option
            (\<lambda>g. \<lparr>argc = 1 + length args, argv0 = program, getopt_long = g,
                  extra_parameters = False\<rparr>)
            (getopt_long_words args)
      | _ \<Rightarrow> None)"


section \<open>Reading the trace, and example surroundings\<close>

text \<open>The buffers of the host-to-device transfers of a trace, in order.\<close>

fun set_reports :: "usb_call list \<Rightarrow> byte list list" where
  "set_reports [] = []"
| "set_reports (Set_report b # cs) = b # set_reports cs"
| "set_reports (c # cs) = set_reports cs"

text \<open>
  The layout of a command buffer: 32 bytes, the opcode, the sub-selector, the value, and zeros
  from byte 3 on.
\<close>

definition command_layout :: "byte list \<Rightarrow> int \<Rightarrow> int \<Rightarrow> int \<Rightarrow> bool" where
  "command_layout b opcode sub v =
     (length b = 32 \<and> uint (b ! 0) = opcode \<and> uint (b ! 1) = sub \<and> uint (b ! 2) = v
      \<and> drop 3 b = replicate 29 0)"

definition world_0 :: world where
  "world_0 = \<lparr>calls = [], stdout = [], stderr = []\<rparr>"

text \<open>A Sensei Raw that can be opened, and surroundings in which every call succeeds.\<close>

definition sensei_raw :: usb_device where
  "sensei_raw = \<lparr>idVendor = 0x1038, idProduct = 0x1369, descriptor_result = 0, open_result = 0\<rparr>"

definition error_names :: "int \<Rightarrow> string" where
  "error_names r = (if r = - 1 then ''LIBUSB_ERROR_IO'' else if r = - 4 then ''LIBUSB_ERROR_NO_DEVICE''
     else if r = - 3 then ''LIBUSB_ERROR_ACCESS'' else ''LIBUSB_ERROR_OTHER'')"

definition env_ok :: env where
  "env_ok =
     \<lparr>PROJECT_NAME = ''sensei-raw-ctl'', PROJECT_VERSION = ''0.1'',
      init_result = 0, device_list = Some [sensei_raw],
      kernel_driver_active_result = 1, detach_result = 0, claim_result = 0,
      set_report_result = (\<lambda>b. 32), get_report_result = 256,
      get_report_data = replicate 256 0,
      release_result = 0, attach_result = 0, libusb_error_name = error_names\<rparr>"


text \<open>
  The status report of the example: intensity 3, pulsation 2, CPI steps 5 and 10, polling 1 at
  their offsets, zero elsewhere.
\<close>

definition example_report :: "byte list" where
  "example_report = (replicate 256 0)[102 := 3, 103 := 2, 107 := 5, 108 := 10, 128 := 1]"

definition env_example :: env where
  "env_example = env_ok\<lparr>get_report_data := example_report\<rparr>"

text \<open>A status report whose five bytes are all outside the ranges the utility knows.\<close>

definition env_unknown :: env where
  "env_unknown = env_ok\<lparr>get_report_data := replicate 256 0\<rparr>"

text \<open>
  The five lines of the text protocol, as the front end reads them: a label and a value each.
  The value of an enumerated field is its name, or \<open>unknown\<close> outside the range.
\<close>

definition intensity_value :: "int \<Rightarrow> string" where
  "intensity_value i =
     (if i \<in> set sensei_intensity then [''off'', ''low'', ''medium'', ''high''] ! nat (i - 1)
      else ''unknown'')"

definition pulsation_value :: "int \<Rightarrow> string" where
  "pulsation_value p =
     (if p \<in> set sensei_pulsation then [''steady'', ''slow'', ''medium'', ''fast''] ! nat (p - 1)
      else ''unknown'')"

definition polling_value :: "int \<Rightarrow> string" where
  "polling_value q =
     (if q \<in> set sensei_polling then [''1000'', ''500'', ''250'', ''125''] ! nat (q - 1) @ ''Hz''
      else ''unknown'')"

definition snapshot_lines :: "sensei_config \<Rightarrow> (string \<times> string) list" where
  "snapshot_lines config =
     [(''Backlight intensity'', intensity_value (intensity config)),
      (''Backlight pulsation'', pulsation_value (pulsation config)),
      (''Speed in CPI (LED is off)'', printf_d (90 * cpi_off config)),
      (''Speed in CPI (LED is on)'', printf_d (90 * cpi_on config)),
      (''Polling frequency'', polling_value (polling config))]"

definition labelled_line :: "string \<times> string \<Rightarrow> string" where
  "labelled_line lv = fst lv @ '': '' @ snd lv @ ''\<newline>''"

definition options_show :: options where
  "options_show = options_0\<lparr>show_config := True\<rparr>"

text \<open>
  The write sequence in the words of the specification: the commands of the requested fields in
  the order mode, polling, intensity, pulsation, CPI with the LED off, CPI with the LED on, save
  to ROM; they are sent one by one until one of them fails.
\<close>

definition requested_writes :: "options \<Rightarrow> sensei_config \<Rightarrow> byte list list" where
  "requested_writes opts config =
     (if set_mode opts then [cmd32 [0x02, 0x00, mode config]] else [])
     @ (if set_polling opts then [cmd32 [0x04, 0x00, polling config]] else [])
     @ (if set_intensity opts then [cmd32 [0x05, 0x01, intensity config]] else [])
     @ (if set_pulsation opts then [cmd32 [0x07, 0x01, pulsation config]] else [])
     @ (if set_cpi_off opts then [cmd32 [0x03, 1, cpi_off config]] else [])
     @ (if set_cpi_on opts then [cmd32 [0x03, 2, cpi_on config]] else [])
     @ (if save_to_rom opts then [cmd32 [0x09, 0x00, 0x00]] else [])"

definition accepted :: "env \<Rightarrow> byte list \<Rightarrow> bool" where
  "accepted e b = (0 \<le> set_report_result e b)"

fun write_sequence :: "env \<Rightarrow> byte list list \<Rightarrow> world \<Rightarrow> int \<times> world" where
  "write_sequence e [] w = (0, w)"
| "write_sequence e (b # bs) w =
     (if accepted e b then write_sequence e bs (call (Set_report b) w)
      else (set_report_result e b, call (Set_report b) w))"

text \<open>
  The request of the example: mode normal, polling 500 Hz and 1800 CPI with the LED on, given
  on the command line in the opposite order; and surroundings in which the polling command
  fails.
\<close>

definition cmdline_example :: cmdline where
  "cmdline_example =
     \<lparr>argc = 7, argv0 = ''sensei-raw-ctl'',
      getopt_long = [(CHR ''c'', ''1800''), (CHR ''p'', ''500''), (CHR ''m'', ''normal'')],
      extra_parameters = False\<rparr>"

definition options_example :: options where
  "options_example = options_0\<lparr>set_mode := True, set_polling := True, set_cpi_on := True\<rparr>"

definition config_example :: sensei_config where
  "config_example = new_config_0\<lparr>mode := MODE_NORMAL, polling := POLLING_500_HZ, cpi_on := 20\<rparr>"

definition env_polling_fails :: env where
  "env_polling_fails =
     env_ok\<lparr>set_report_result := (\<lambda>b. if b ! 0 = 0x04 then - 1 else 32)\<rparr>"

text \<open>A request to show the configuration that also asks for a new mode and for saving to ROM.\<close>

definition cmdline_show_and_set :: cmdline where
  "cmdline_show_and_set =
     \<lparr>argc = 5, argv0 = ''sensei-raw-ctl'',
      getopt_long = [(CHR ''m'', ''normal''), (CHR ''s'', []), (CHR ''S'', [])],
      extra_parameters = False\<rparr>"

definition options_show_and_set :: options where
  "options_show_and_set = options_0\<lparr>show_config := True, set_mode := True, save_to_rom := True\<rparr>"

text \<open>A string with its capital letters made small: what \<open>strcasecmp\<close> compares.\<close>

definition strlower :: "string \<Rightarrow> string" where
  "strlower s = map tolower s"

text \<open>A command line with the mode \<open>compat\<close> after another option.\<close>

definition cmdline_compat :: cmdline where
  "cmdline_compat =
     \<lparr>argc = 4, argv0 = ''sensei-raw-ctl'',
      getopt_long = [(CHR ''S'', []), (CHR ''m'', ''compat'')],
      extra_parameters = False\<rparr>"

text \<open>
  Discovery in the words of the specification: a device matches an identifier when its descriptor
  can be read and carries the vendor and the product; the device discovery settles on is the
  first match of the first identifier, in the order of the list, that has one.
\<close>

definition matches :: "int \<Rightarrow> int \<Rightarrow> usb_device \<Rightarrow> bool" where
  "matches vendor product d =
     (descriptor_result d = 0 \<and> idVendor d = vendor \<and> idProduct d = product)"

fun first_match :: "int \<Rightarrow> int list \<Rightarrow> usb_device list \<Rightarrow> usb_device option" where
  "first_match vendor [] devs = None"
| "first_match vendor (p # ps) devs =
     (case find (matches vendor p) devs of
        Some d \<Rightarrow> Some d
      | None \<Rightarrow> first_match vendor ps devs)"

text \<open>The devices a trace tried to open, in order.\<close>

fun opened :: "usb_call list \<Rightarrow> usb_device list" where
  "opened [] = []"
| "opened (Libusb_open d # cs) = d # opened cs"
| "opened (c # cs) = opened cs"

text \<open>
  A bus with a keyboard, a Call of Duty variant that could be opened and, after it, a Sensei Raw
  that cannot; and a bus with the keyboard only.
\<close>

definition keyboard :: usb_device where
  "keyboard = \<lparr>idVendor = 0x046d, idProduct = 0xc31c, descriptor_result = 0, open_result = 0\<rparr>"

definition cod_bo2 :: usb_device where
  "cod_bo2 = \<lparr>idVendor = 0x1038, idProduct = 0x136f, descriptor_result = 0, open_result = 0\<rparr>"

definition sensei_raw_locked :: usb_device where
  "sensei_raw_locked =
     \<lparr>idVendor = 0x1038, idProduct = 0x1369, descriptor_result = 0, open_result = - 3\<rparr>"

definition env_locked :: env where
  "env_locked = env_ok\<lparr>device_list := Some [keyboard, cod_bo2, sensei_raw_locked]\<rparr>"

definition env_absent :: env where
  "env_absent = env_ok\<lparr>device_list := Some [keyboard]\<rparr>"

text \<open>The devices an enumeration yields: none when \<open>libusb_get_device_list\<close> fails.\<close>

definition enumerated :: "env \<Rightarrow> usb_device list" where
  "enumerated e = (case device_list e of None \<Rightarrow> [] | Some devs \<Rightarrow> devs)"

text \<open>The world a run ends in, however it ends.\<close>

definition final_world :: "'a run \<Rightarrow> world" where
  "final_world r = (case r of Inl (h, w) \<Rightarrow> w | Inr (x, w) \<Rightarrow> w)"

text \<open>
  Surroundings in which the query for a kernel driver fails, in which the platform does not
  support it, in which the detach fails, and in which both a command and the release fail.
\<close>

definition env_query_fails :: env where
  "env_query_fails = env_ok\<lparr>kernel_driver_active_result := - 4\<rparr>"

definition env_unsupported :: env where
  "env_unsupported = env_ok\<lparr>kernel_driver_active_result := - 12\<rparr>"

definition env_detach_fails :: env where
  "env_detach_fails = env_ok\<lparr>detach_result := - 1\<rparr>"

definition env_write_and_release_fail :: env where
  "env_write_and_release_fail =
     env_ok\<lparr>set_report_result := (\<lambda>b. - 1), release_result := - 4\<rparr>"

definition env_release_fails :: env where
  "env_release_fails = env_ok\<lparr>release_result := - 4\<rparr>"

text \<open>The calls that are control transfers.\<close>

fun is_transfer :: "usb_call \<Rightarrow> bool" where
  "is_transfer (Set_report b) = True"
| "is_transfer Get_report = True"
| "is_transfer c = False"

text \<open>
  What \<open>parse_options\<close> keeps true of the request it builds: a CPI step that is to be
  written is between 1 and 63.
\<close>

definition cpi_in_range :: "options \<times> sensei_config \<Rightarrow> bool" where
  "cpi_in_range oc =
     ((if set_cpi_off (fst oc) then 1 \<le> cpi_off (snd oc) \<and> cpi_off (snd oc) \<le> 63 else True)
      \<and> (if set_cpi_on (fst oc) then 1 \<le> cpi_on (snd oc) \<and> cpi_on (snd oc) \<le> 63 else True))"

section \<open>The enumerations\<close>

lemmas enum_defs = sensei_mode_def sensei_intensity_def sensei_pulsation_def sensei_polling_def
     MODE_LEGACY_def MODE_NORMAL_def INTENSITY_OFF_def INTENSITY_LOW_def INTENSITY_MEDIUM_def INTENSITY_HIGH_def
     PULSATION_STEADY_def PULSATION_SLOW_def PULSATION_MEDIUM_def PULSATION_FAST_def
     POLLING_1000_HZ_def POLLING_500_HZ_def POLLING_250_HZ_def POLLING_125_HZ_def

section \<open>The command buffers\<close>

lemma cmd32_3: "cmd32 [a, b, c] = [word_of_int a, word_of_int b, word_of_int c] @ replicate 29 0"
  by (simp add: cmd32_def)

lemma command_layout_cmd32:
  "0 \<le> a \<Longrightarrow> a < 256 \<Longrightarrow> 0 \<le> b \<Longrightarrow> b < 256 \<Longrightarrow> 0 \<le> c \<Longrightarrow> c < 256
   \<Longrightarrow> command_layout (cmd32 [a, b, c]) a b c"
  by (simp add: command_layout_def cmd32_def uint_word_of_int)

lemma enums:
  "sensei_mode = [1, 2]" "sensei_intensity = [1, 2, 3, 4]"
  "sensei_pulsation = [1, 2, 3, 4]" "sensei_polling = [1, 2, 3, 4]"
  by (simp_all add: enum_defs)

lemma send_command_layout:
  "command_layout b x y z \<Longrightarrow>
   \<exists>b' r. sensei_send_command e b w = (r, call (Set_report b') w) \<and> command_layout b' x y z"
  by (auto simp: sensei_send_command_def Let_def)

text \<open>
  C1. Every write command is a buffer of 32 bytes: byte 0 is the opcode of the command (mode
  \<open>0x02\<close>, intensity \<open>0x05\<close>, pulsation \<open>0x07\<close>, CPI \<open>0x03\<close>, polling \<open>0x04\<close>, save to ROM
  \<open>0x09\<close>, six different values), byte 1 the sub-selector (1 for the CPI with the LED off, 2
  for the CPI with the LED on, the constant 0 or 1 otherwise), byte 2 the value of the field as
  one byte (0 for save to ROM, which has no value), and bytes 3 to 31 are zero. The enumerators
  of every enumeration are numbered from 1 upwards without a gap, so 0 is the value of none.
\<close>

theorem write_command_layout:
  assumes "m \<in> set sensei_mode" and "i \<in> set sensei_intensity" and "p \<in> set sensei_pulsation"
    and "q \<in> set sensei_polling" and "SENSEI_CPI_MIN \<le> c" and "c \<le> SENSEI_CPI_MAX"
  shows "(\<exists>b r. sensei_set_mode e m w = (r, call (Set_report b) w) \<and> command_layout b 0x02 0 m)
     \<and> (\<exists>b r. sensei_set_intensity e i w = (r, call (Set_report b) w) \<and> command_layout b 0x05 1 i)
     \<and> (\<exists>b r. sensei_set_pulsation e p w = (r, call (Set_report b) w) \<and> command_layout b 0x07 1 p)
     \<and> (\<exists>b r. sensei_set_cpi e c False w = Inr (r, call (Set_report b) w) \<and> command_layout b 0x03 1 c)
     \<and> (\<exists>b r. sensei_set_cpi e c True w = Inr (r, call (Set_report b) w) \<and> command_layout b 0x03 2 c)
     \<and> (\<exists>b r. sensei_set_polling e q w = (r, call (Set_report b) w) \<and> command_layout b 0x04 0 q)
     \<and> (\<exists>b r. sensei_save_to_rom e w = (r, call (Set_report b) w) \<and> command_layout b 0x09 0 0)
     \<and> distinct [0x02, 0x05, 0x07, 0x03, 0x04, 0x09 :: int]
     \<and> sensei_mode = [1, 2] \<and> sensei_intensity = [1, 2, 3, 4]
     \<and> sensei_pulsation = [1, 2, 3, 4] \<and> sensei_polling = [1, 2, 3, 4]
     \<and> 0 \<notin> set (sensei_mode @ sensei_intensity @ sensei_pulsation @ sensei_polling)"
proof -
  have m: "0 \<le> m" "m < 256"
    using assms(1) by (auto simp: enums)
  have i: "0 \<le> i" "i < 256"
    using assms(2) by (auto simp: enums)
  have p: "0 \<le> p" "p < 256"
    using assms(3) by (auto simp: enums)
  have q: "0 \<le> q" "q < 256"
    using assms(4) by (auto simp: enums)
  have c: "0 \<le> c" "c < 256"
    using assms(5,6) by (simp_all add: SENSEI_CPI_MIN_def SENSEI_CPI_MAX_def)
  have 1: "\<exists>b r. sensei_set_mode e m w = (r, call (Set_report b) w) \<and> command_layout b 0x02 0 m"
    unfolding sensei_set_mode_def
    by (rule send_command_layout, rule command_layout_cmd32) (use m in simp_all)
  have 2: "\<exists>b r. sensei_set_intensity e i w = (r, call (Set_report b) w) \<and> command_layout b 0x05 1 i"
    unfolding sensei_set_intensity_def
    by (rule send_command_layout, rule command_layout_cmd32) (use i in simp_all)
  have 3: "\<exists>b r. sensei_set_pulsation e p w = (r, call (Set_report b) w) \<and> command_layout b 0x07 1 p"
    unfolding sensei_set_pulsation_def
    by (rule send_command_layout, rule command_layout_cmd32) (use p in simp_all)
  have off: "sensei_set_cpi e c False w = Inr (sensei_send_command e (cmd32 [0x03, 1, c]) w)"
    and on: "sensei_set_cpi e c True w = Inr (sensei_send_command e (cmd32 [0x03, 2, c]) w)"
    using assms(5,6) by (simp_all add: sensei_set_cpi_def)
  have "command_layout (cmd32 [0x03, 1, c]) 0x03 1 c"
    by (rule command_layout_cmd32) (use c in simp_all)
  from send_command_layout [OF this, of e w]
  have 4: "\<exists>b r. sensei_set_cpi e c False w = Inr (r, call (Set_report b) w) \<and> command_layout b 0x03 1 c"
    unfolding off by simp
  have "command_layout (cmd32 [0x03, 2, c]) 0x03 2 c"
    by (rule command_layout_cmd32) (use c in simp_all)
  from send_command_layout [OF this, of e w]
  have 5: "\<exists>b r. sensei_set_cpi e c True w = Inr (r, call (Set_report b) w) \<and> command_layout b 0x03 2 c"
    unfolding on by simp
  have 6: "\<exists>b r. sensei_set_polling e q w = (r, call (Set_report b) w) \<and> command_layout b 0x04 0 q"
    unfolding sensei_set_polling_def
    by (rule send_command_layout, rule command_layout_cmd32) (use q in simp_all)
  have 7: "\<exists>b r. sensei_save_to_rom e w = (r, call (Set_report b) w) \<and> command_layout b 0x09 0 0"
    unfolding sensei_save_to_rom_def
    by (rule send_command_layout, rule command_layout_cmd32) simp_all
  have 8: "distinct [0x02, 0x05, 0x07, 0x03, 0x04, 0x09 :: int]" by simp
  have 9: "0 \<notin> set (sensei_mode @ sensei_intensity @ sensei_pulsation @ sensei_polling)"
    by (simp add: enums)
  from 1 2 3 4 5 6 7 8 9 enums show ?thesis by blast
qed

theorem write_command_layout_witness:
  "MODE_NORMAL \<in> set sensei_mode \<and> INTENSITY_HIGH \<in> set sensei_intensity
   \<and> PULSATION_SLOW \<in> set sensei_pulsation \<and> POLLING_500_HZ \<in> set sensei_polling
   \<and> SENSEI_CPI_MIN \<le> 10 \<and> 10 \<le> SENSEI_CPI_MAX
   \<and> (\<exists>b r. sensei_set_cpi env_ok 10 True world_0 = Inr (r, call (Set_report b) world_0)
        \<and> command_layout b 0x03 2 10)
   \<and> sensei_set_cpi env_ok 10 True world_0
       = Inr (0, \<lparr>calls = [Set_report ([3, 2, 10] @ replicate 29 0)], stdout = [], stderr = []\<rparr>)"
proof -
  have h: "MODE_NORMAL \<in> set sensei_mode" "INTENSITY_HIGH \<in> set sensei_intensity"
    "PULSATION_SLOW \<in> set sensei_pulsation" "POLLING_500_HZ \<in> set sensei_polling"
    "SENSEI_CPI_MIN \<le> 10" "10 \<le> SENSEI_CPI_MAX"
    by (simp_all add: sensei_mode_def sensei_intensity_def sensei_pulsation_def sensei_polling_def
        SENSEI_CPI_MIN_def SENSEI_CPI_MAX_def)
  have "sensei_set_cpi env_ok 10 True world_0
       = Inr (0, \<lparr>calls = [Set_report ([3, 2, 10] @ replicate 29 0)], stdout = [], stderr = []\<rparr>)"
    by (simp add: sensei_set_cpi_def sensei_send_command_def cmd32_def env_ok_def world_0_def
        call_def SENSEI_CPI_MIN_def SENSEI_CPI_MAX_def)
  with h write_command_layout [OF h, of env_ok world_0] show ?thesis by simp
qed

section \<open>The CPI encoder\<close>

lemma digit_char:
  assumes "d < 10"
  shows "isdigit (''0123456789'' ! d)" and "(of_char (''0123456789'' ! d) :: int) = 48 + int d"
proof -
  from assms have "d \<in> {0, 1, 2, 3, 4, 5, 6, 7, 8, 9}" by auto
  then show "isdigit (''0123456789'' ! d)" and "(of_char (''0123456789'' ! d) :: int) = 48 + int d"
    by (auto simp: isdigit_def)
qed

lemma isdigit_plain: "isdigit c \<Longrightarrow> \<not> isspace c \<and> c \<noteq> CHR ''-'' \<and> c \<noteq> CHR ''+''"
  by (auto simp: isdigit_def isspace_def)

lemma strtol_digits_dec_nat:
  "strtol_digits acc (dec_nat n @ rest) = strtol_digits (acc * 10 ^ length (dec_nat n) + int n) rest"
proof (induction n arbitrary: acc rest rule: dec_nat.induct)
  case (1 n)
  show ?case
  proof (cases "n < 10")
    case True
    then show ?thesis
      by (simp add: dec_nat.simps [of n] digit_char)
  next
    case False
    have m: "n mod 10 < 10" by simp
    have "strtol_digits acc (dec_nat n @ rest)
        = strtol_digits acc (dec_nat (n div 10) @ (''0123456789'' ! (n mod 10)) # rest)"
      using False by (simp add: dec_nat.simps [of n])
    also have "\<dots> = strtol_digits (acc * 10 ^ length (dec_nat (n div 10)) + int (n div 10))
                       ((''0123456789'' ! (n mod 10)) # rest)"
      using False by (rule "1.IH")
    also have "\<dots> = strtol_digits ((acc * 10 ^ length (dec_nat (n div 10)) + int (n div 10)) * 10
                         + int (n mod 10)) rest"
      using digit_char [OF m] by simp
    also have "(acc * 10 ^ length (dec_nat (n div 10)) + int (n div 10)) * 10 + int (n mod 10)
             = acc * 10 ^ length (dec_nat n) + int n"
    proof -
      have "length (dec_nat n) = Suc (length (dec_nat (n div 10)))"
        using False by (simp add: dec_nat.simps [of n])
      moreover have "int (n div 10) * 10 + int (n mod 10) = int n"
        by (simp add: zdiv_int zmod_int)
      ultimately show ?thesis by (simp add: algebra_simps)
    qed
    finally show ?thesis .
  qed
qed

lemma dec_nat_head: "\<exists>d ds. dec_nat n = d # ds \<and> isdigit d"
proof (induction n rule: dec_nat.induct)
  case (1 n)
  show ?case
  proof (cases "n < 10")
    case True
    then show ?thesis by (simp add: dec_nat.simps [of n] digit_char)
  next
    case False
    with "1.IH" obtain d ds where "dec_nat (n div 10) = d # ds" "isdigit d" by blast
    with False show ?thesis by (simp add: dec_nat.simps [of n])
  qed
qed

lemma strtol_dec_nat: "strtol (dec_nat n) = (min LONG_MAX (int n), [])"
proof -
  obtain d ds where dd: "dec_nat n = d # ds" "isdigit d"
    using dec_nat_head by blast
  have "strtol_digits 0 (dec_nat n @ []) = (int n, [])"
    by (simp only: strtol_digits_dec_nat) simp
  then have "strtol_digits 0 (d # ds) = (int n, [])"
    using dd by simp
  then show ?thesis
    using dd isdigit_plain [OF dd(2)] by (simp add: strtol_def strtol_sign_def)
qed

lemma dec_nat_90: "printf_d 90 = ''90''" "printf_d 5670 = ''5670''"
  by (simp_all add: printf_d_def dec_nat.simps)

lemma c_div_nonneg: "0 \<le> a \<Longrightarrow> 0 < b \<Longrightarrow> c_div a b = a div b"
  by (cases "a = 0") (simp_all add: c_div_def)

lemma encode_cpi_dec_nat:
  "encode_cpi (dec_nat n) w =
     Inr (max 1 (min 63 (int n div 90)),
          if n < 90 then fprintf_stderr ''Notice: CPI too low, using 90\<newline>'' w
          else if 5760 \<le> n then fprintf_stderr ''Notice: CPI too high, using 5670\<newline>'' w
          else w)"
proof -
  have dd: "dec_nat n \<noteq> []"
    using dec_nat_head [of n] by auto
  define c where "c = min LONG_MAX (int n)"
  have c0: "0 \<le> c" by (simp add: c_def LONG_MAX_def)
  have low: "c div 90 < 1 \<longleftrightarrow> n < 90"
    by (auto simp: c_def LONG_MAX_def min_def)
  have high: "63 < c div 90 \<longleftrightarrow> 5760 \<le> n"
    by (auto simp: c_def LONG_MAX_def min_def)
  have val: "max 1 (min 63 (c div 90)) = max 1 (min 63 (int n div 90))"
    by (auto simp: c_def LONG_MAX_def min_def max_def)
  have "encode_cpi (dec_nat n) w =
     Inr (max 1 (min 63 (c div 90)),
          if c div 90 < 1 then fprintf_stderr ''Notice: CPI too low, using 90\<newline>'' w
          else if 63 < c div 90 then fprintf_stderr ''Notice: CPI too high, using 5670\<newline>'' w
          else w)"
    using c0 dd
    by (simp add: encode_cpi_def strtol_dec_nat c_def [symmetric] c_div_nonneg Let_def
        SENSEI_CPI_STEP_def SENSEI_CPI_MIN_def SENSEI_CPI_MAX_def dec_nat_90)
  then show ?thesis by (simp only: low high val)
qed


lemma encode_cpi_step:
  assumes "1 \<le> s" and "s \<le> 63"
  shows "encode_cpi (printf_d (90 * s)) w = Inr (s, w)"
proof -
  have "printf_d (90 * s) = dec_nat (nat (90 * s))"
    using assms by (simp add: printf_d_def)
  moreover have "int (nat (90 * s)) div 90 = s" "\<not> nat (90 * s) < 90" "\<not> 5760 \<le> nat (90 * s)"
    using assms by simp_all
  ultimately show ?thesis
    using assms by (simp add: encode_cpi_dec_nat)
qed

lemma encode_cpi_accepted:
  assumes "str \<noteq> []" and "strtol str = (c, [])" and "0 \<le> c"
  shows "encode_cpi str w =
     Inr (max 1 (min 63 (c div 90)),
          if c div 90 < 1 then fprintf_stderr ''Notice: CPI too low, using 90\<newline>'' w
          else if 63 < c div 90 then fprintf_stderr ''Notice: CPI too high, using 5670\<newline>'' w
          else w)"
  using assms
  by (simp add: encode_cpi_def c_div_nonneg Let_def
      SENSEI_CPI_STEP_def SENSEI_CPI_MIN_def SENSEI_CPI_MAX_def dec_nat_90)

lemma encode_cpi_refused:
  assumes "str = [] \<or> snd (strtol str) \<noteq> [] \<or> fst (strtol str) < 0"
  shows "encode_cpi str w =
     Inl (Exit EXIT_FAILURE, fprintf_stderr ''Error: invalid CPI value\<newline>'' w)"
  using assms by (cases "strtol str") (auto simp: encode_cpi_def)

lemma strtol_minus_dec_nat: "strtol (CHR ''-'' # dec_nat n) = (max LONG_MIN (- int n), [])"
proof -
  obtain d ds where dd: "dec_nat n = d # ds" "isdigit d"
    using dec_nat_head by blast
  have "strtol_digits 0 (dec_nat n @ []) = (int n, [])"
    by (simp only: strtol_digits_dec_nat) simp
  then have "strtol_digits 0 (d # ds) = (int n, [])"
    using dd by simp
  then show ?thesis
    using dd by (simp add: strtol_def strtol_sign_def isspace_def)
qed

lemma encode_cpi_minus_dec_nat:
  assumes "0 < n"
  shows "encode_cpi (CHR ''-'' # dec_nat n) w =
     Inl (Exit EXIT_FAILURE, fprintf_stderr ''Error: invalid CPI value\<newline>'' w)"
proof -
  have "fst (strtol (CHR ''-'' # dec_nat n)) < 0"
    using assms by (simp add: strtol_minus_dec_nat LONG_MIN_def)
  then show ?thesis by (simp add: encode_cpi_refused)
qed

text \<open>
  C3, as the code has it. For every CPI written as a decimal number \<open>n\<close> that is not negative,
  and more generally for every input that \<open>strtol\<close> consumes whole as a number \<open>c\<close> that is
  not negative, \<open>encode_cpi\<close> returns the quotient by 90 brought into the range from 1 to 63:
  a quotient below 1 becomes 1 and a quotient above 63 becomes 63, each with a notice on the
  error stream and no other effect. A step \<open>s\<close> from 1 to 63 comes back unchanged, both from
  the CPI \<open>90 * s\<close> that \<open>sensei_display_config\<close> prints for it and from byte 2 of the
  command that carries it. Every other input is refused before any division: an empty one, one
  that \<open>strtol\<close> does not consume whole and one that it reads as a negative number, such as
  the decimal number of any \<open>n\<close> above 0 after a minus sign, make the process print
  \<open>Error: invalid CPI value\<close> and exit with the failure status.
\<close>

theorem encode_cpi_quantises:
  "encode_cpi (dec_nat n) w =
     Inr (max 1 (min 63 (int n div 90)),
          if n < 90 then fprintf_stderr ''Notice: CPI too low, using 90\<newline>'' w
          else if 5760 \<le> n then fprintf_stderr ''Notice: CPI too high, using 5670\<newline>'' w
          else w)
   \<and> (str \<noteq> [] \<and> strtol str = (c, []) \<and> 0 \<le> c \<longrightarrow>
        encode_cpi str w =
          Inr (max 1 (min 63 (c div 90)),
               if c div 90 < 1 then fprintf_stderr ''Notice: CPI too low, using 90\<newline>'' w
               else if 63 < c div 90 then fprintf_stderr ''Notice: CPI too high, using 5670\<newline>'' w
               else w))
   \<and> (1 \<le> s \<and> s \<le> 63 \<longrightarrow>
        encode_cpi (printf_d (90 * s)) w = Inr (s, w)
        \<and> uint (cmd32 [0x03, 1, s] ! 2) = s \<and> uint (cmd32 [0x03, 2, s] ! 2) = s)
   \<and> (bad = [] \<or> snd (strtol bad) \<noteq> [] \<or> fst (strtol bad) < 0 \<longrightarrow>
        encode_cpi bad w =
          Inl (Exit EXIT_FAILURE, fprintf_stderr ''Error: invalid CPI value\<newline>'' w))
   \<and> (0 < n \<longrightarrow>
        encode_cpi (CHR ''-'' # dec_nat n) w =
          Inl (Exit EXIT_FAILURE, fprintf_stderr ''Error: invalid CPI value\<newline>'' w))
   \<and> encode_cpi [] w =
        Inl (Exit EXIT_FAILURE, fprintf_stderr ''Error: invalid CPI value\<newline>'' w)"
proof -
  have 1: "encode_cpi [] w =
        Inl (Exit EXIT_FAILURE, fprintf_stderr ''Error: invalid CPI value\<newline>'' w)"
    by (rule encode_cpi_refused) simp
  show ?thesis
    using encode_cpi_accepted [of str c w] encode_cpi_refused [of bad w]
      encode_cpi_minus_dec_nat [of n w] 1
    by (simp add: encode_cpi_dec_nat encode_cpi_step cmd32_def uint_word_of_int)
qed

theorem encode_cpi_quantises_witness:
  "(1 :: int) \<le> 10 \<and> (10 :: int) \<le> 63
   \<and> '' +0900'' \<noteq> [] \<and> strtol '' +0900'' = (900, []) \<and> (0 :: int) \<le> 900
   \<and> encode_cpi '' +0900'' world_0 = Inr (10, world_0)
   \<and> encode_cpi ''900'' world_0 = Inr (10, world_0)
   \<and> encode_cpi ''45'' world_0
       = Inr (1, \<lparr>calls = [], stdout = [], stderr = ''Notice: CPI too low, using 90\<newline>''\<rparr>)
   \<and> uint (cmd32 [0x03, 1, 10] ! 2) = 10
   \<and> snd (strtol ''12abc'') \<noteq> []
   \<and> encode_cpi ''12abc'' world_0
       = Inl (Exit 1, \<lparr>calls = [], stdout = [], stderr = ''Error: invalid CPI value\<newline>''\<rparr>)
   \<and> (0 :: nat) < 45
   \<and> encode_cpi ''-45'' world_0
       = Inl (Exit 1, \<lparr>calls = [], stdout = [], stderr = ''Error: invalid CPI value\<newline>''\<rparr>)
   \<and> encode_cpi [] world_0
       = Inl (Exit 1, \<lparr>calls = [], stdout = [], stderr = ''Error: invalid CPI value\<newline>''\<rparr>)"
proof -
  have d: "dec_nat 45 = ''45''" "printf_d 900 = ''900''"
    by (simp_all add: printf_d_def dec_nat.simps)
  have h: "strtol '' +0900'' = (900, [])"
    by (simp add: strtol_def strtol_sign_def isspace_def isdigit_def LONG_MAX_def)
  have b: "snd (strtol ''12abc'') \<noteq> []"
    by (simp add: strtol_def strtol_sign_def isspace_def isdigit_def LONG_MAX_def)
  show ?thesis
    using encode_cpi_quantises [where n = 45 and w = world_0 and s = 10
        and str = "'' +0900''" and c = 900 and bad = "''12abc''"]
    by (simp add: d h b world_0_def fprintf_stderr_def EXIT_FAILURE_def)
qed

text \<open>
  The claim as written for every input fails at \<open>-90\<close>, which \<open>strtol\<close> reads as the number
  \<open>-90\<close>: it is not raised to step 1, the process exits with status 1.
\<close>

theorem encode_cpi_negative_counterexample:
  "strtol ''-90'' = (- 90, [])
   \<and> encode_cpi ''-90'' world_0
       = Inl (Exit 1, \<lparr>calls = [], stdout = [], stderr = ''Error: invalid CPI value\<newline>''\<rparr>)"
  by (simp add: encode_cpi_def strtol_def strtol_sign_def isspace_def isdigit_def LONG_MIN_def
      world_0_def fprintf_stderr_def EXIT_FAILURE_def)

section \<open>The write sequence\<close>

lemma send_command_step:
  "sensei_send_command e b w =
     (if accepted e b then 0 else set_report_result e b, call (Set_report b) w)"
  by (auto simp: sensei_send_command_def accepted_def Let_def)

lemma not_accepted: "\<not> accepted e b \<Longrightarrow> set_report_result e b \<noteq> 0"
  by (auto simp: accepted_def)

lemma write_sequence_closed:
  "write_sequence e bs w =
     (case dropWhile (accepted e) bs of [] \<Rightarrow> 0 | b # rest \<Rightarrow> set_report_result e b,
      w\<lparr>calls := calls w @ map Set_report (takeWhile (accepted e) bs @ take 1 (dropWhile (accepted e) bs))\<rparr>)"
  by (induction bs arbitrary: w) (simp_all add: call_def)

lemma apply_save_to_rom_sequence:
  "apply_save_to_rom e opts w =
     Inr (write_sequence e (if save_to_rom opts then [cmd32 [0x09, 0x00, 0x00]] else []) w)"
  by (simp add: apply_save_to_rom_def sensei_save_to_rom_def send_command_step not_accepted)

lemma apply_cpi_on_sequence:
  assumes "set_cpi_on opts \<longrightarrow> 1 \<le> cpi_on config \<and> cpi_on config \<le> 63"
  shows "apply_cpi_on e opts config w =
     Inr (write_sequence e
       ((if set_cpi_on opts then [cmd32 [0x03, 2, cpi_on config]] else [])
        @ (if save_to_rom opts then [cmd32 [0x09, 0x00, 0x00]] else [])) w)"
  using assms
  by (simp add: apply_cpi_on_def sensei_set_cpi_def SENSEI_CPI_MIN_def SENSEI_CPI_MAX_def
      send_command_step not_accepted apply_save_to_rom_sequence)

lemma apply_cpi_off_sequence:
  assumes "set_cpi_off opts \<longrightarrow> 1 \<le> cpi_off config \<and> cpi_off config \<le> 63"
    and "set_cpi_on opts \<longrightarrow> 1 \<le> cpi_on config \<and> cpi_on config \<le> 63"
  shows "apply_cpi_off e opts config w =
     Inr (write_sequence e
       ((if set_cpi_off opts then [cmd32 [0x03, 1, cpi_off config]] else [])
        @ (if set_cpi_on opts then [cmd32 [0x03, 2, cpi_on config]] else [])
        @ (if save_to_rom opts then [cmd32 [0x09, 0x00, 0x00]] else [])) w)"
  using assms(1)
  by (simp add: apply_cpi_off_def sensei_set_cpi_def SENSEI_CPI_MIN_def SENSEI_CPI_MAX_def
      send_command_step not_accepted apply_cpi_on_sequence [OF assms(2)])

lemma apply_mode_sequence:
  assumes "set_cpi_off opts \<longrightarrow> 1 \<le> cpi_off config \<and> cpi_off config \<le> 63"
    and "set_cpi_on opts \<longrightarrow> 1 \<le> cpi_on config \<and> cpi_on config \<le> 63"
  shows "apply_mode e opts config w = Inr (write_sequence e (requested_writes opts config) w)"
proof -
  note t = apply_cpi_off_sequence [OF assms]
  have p: "apply_pulsation e opts config w =
     Inr (write_sequence e
       ((if set_pulsation opts then [cmd32 [0x07, 0x01, pulsation config]] else [])
        @ (if set_cpi_off opts then [cmd32 [0x03, 1, cpi_off config]] else [])
        @ (if set_cpi_on opts then [cmd32 [0x03, 2, cpi_on config]] else [])
        @ (if save_to_rom opts then [cmd32 [0x09, 0x00, 0x00]] else [])) w)" for w
    by (simp add: apply_pulsation_def sensei_set_pulsation_def send_command_step not_accepted t)
  have i: "apply_intensity e opts config w =
     Inr (write_sequence e
       ((if set_intensity opts then [cmd32 [0x05, 0x01, intensity config]] else [])
        @ (if set_pulsation opts then [cmd32 [0x07, 0x01, pulsation config]] else [])
        @ (if set_cpi_off opts then [cmd32 [0x03, 1, cpi_off config]] else [])
        @ (if set_cpi_on opts then [cmd32 [0x03, 2, cpi_on config]] else [])
        @ (if save_to_rom opts then [cmd32 [0x09, 0x00, 0x00]] else [])) w)" for w
    by (simp add: apply_intensity_def sensei_set_intensity_def send_command_step not_accepted p)
  have q: "apply_polling e opts config w =
     Inr (write_sequence e
       ((if set_polling opts then [cmd32 [0x04, 0x00, polling config]] else [])
        @ (if set_intensity opts then [cmd32 [0x05, 0x01, intensity config]] else [])
        @ (if set_pulsation opts then [cmd32 [0x07, 0x01, pulsation config]] else [])
        @ (if set_cpi_off opts then [cmd32 [0x03, 1, cpi_off config]] else [])
        @ (if set_cpi_on opts then [cmd32 [0x03, 2, cpi_on config]] else [])
        @ (if save_to_rom opts then [cmd32 [0x09, 0x00, 0x00]] else [])) w)" for w
    by (simp add: apply_polling_def sensei_set_polling_def send_command_step not_accepted i)
  show ?thesis
    by (simp add: apply_mode_def sensei_set_mode_def send_command_step not_accepted q
        requested_writes_def)
qed

text \<open>
  C2. When the configuration is not to be shown, \<open>apply_options\<close> sends the commands of the
  requested fields in the order of \<open>requested_writes\<close> (mode, polling, intensity, pulsation,
  CPI with the LED off, CPI with the LED on, and last the save to ROM when it is requested),
  whatever the order of the options on the command line was, since the request is a set of
  flags. It sends them up to and including the first one that fails, returns the result of that
  one and sends nothing after it; when none fails it sends them all and returns 0. The CPI
  steps of a request are between 1 and 63, as \<open>encode_cpi\<close> leaves them.
\<close>

theorem apply_options_write_order:
  assumes "\<not> show_config opts"
    and "set_cpi_off opts \<longrightarrow> 1 \<le> cpi_off config \<and> cpi_off config \<le> 63"
    and "set_cpi_on opts \<longrightarrow> 1 \<le> cpi_on config \<and> cpi_on config \<le> 63"
  shows "apply_options e opts config w =
     Inr (case dropWhile (accepted e) (requested_writes opts config) of
            [] \<Rightarrow> 0
          | b # rest \<Rightarrow> set_report_result e b,
          w\<lparr>calls := calls w @ map Set_report
               (takeWhile (accepted e) (requested_writes opts config)
                @ take 1 (dropWhile (accepted e) (requested_writes opts config)))\<rparr>)
     \<and> (list_all (accepted e) (requested_writes opts config) \<longrightarrow>
          apply_options e opts config w =
            Inr (0, w\<lparr>calls := calls w @ map Set_report (requested_writes opts config)\<rparr>))"
proof -
  have 1: "apply_options e opts config w = Inr (write_sequence e (requested_writes opts config) w)"
    using assms(1) by (simp add: apply_options_def apply_mode_sequence [OF assms(2,3)])
  have 2: "apply_options e opts config w =
     Inr (case dropWhile (accepted e) (requested_writes opts config) of
            [] \<Rightarrow> 0
          | b # rest \<Rightarrow> set_report_result e b,
          w\<lparr>calls := calls w @ map Set_report
               (takeWhile (accepted e) (requested_writes opts config)
                @ take 1 (dropWhile (accepted e) (requested_writes opts config)))\<rparr>)"
    unfolding 1 write_sequence_closed ..
  have 3: "apply_options e opts config w =
            Inr (0, w\<lparr>calls := calls w @ map Set_report (requested_writes opts config)\<rparr>)"
    if "list_all (accepted e) (requested_writes opts config)"
  proof -
    from that have "takeWhile (accepted e) (requested_writes opts config) = requested_writes opts config"
      and "dropWhile (accepted e) (requested_writes opts config) = []"
      by (simp_all add: list_all_iff)
    with 2 show ?thesis by simp
  qed
  from 2 3 show ?thesis by blast
qed


theorem apply_options_write_order_witness:
  "\<not> show_config options_example
   \<and> \<not> set_cpi_off options_example
   \<and> set_cpi_on options_example \<and> 1 \<le> cpi_on config_example \<and> cpi_on config_example \<le> 63
   \<and> parse_options env_ok cmdline_example (options_0, new_config_0) world_0
       = Inr ((options_example, config_example), world_0)
   \<and> apply_options env_ok options_example config_example world_0
       = Inr (0, \<lparr>calls = [Set_report ([2, 0, 2] @ replicate 29 0),
                          Set_report ([4, 0, 2] @ replicate 29 0),
                          Set_report ([3, 2, 20] @ replicate 29 0)],
                 stdout = [], stderr = []\<rparr>)
   \<and> apply_options env_polling_fails options_example config_example world_0
       = Inr (- 1, \<lparr>calls = [Set_report ([2, 0, 2] @ replicate 29 0),
                            Set_report ([4, 0, 2] @ replicate 29 0)],
                   stdout = [], stderr = []\<rparr>)"
proof -
  have h: "\<not> show_config options_example"
    "set_cpi_off options_example \<longrightarrow> 1 \<le> cpi_off config_example \<and> cpi_off config_example \<le> 63"
    "set_cpi_on options_example \<longrightarrow> 1 \<le> cpi_on config_example \<and> cpi_on config_example \<le> 63"
    by (simp_all add: options_example_def options_0_def config_example_def new_config_0_def)
  have p: "parse_options env_ok cmdline_example (options_0, new_config_0) world_0
       = Inr ((options_example, config_example), world_0)"
    by (simp add: parse_options_def cmdline_example_def parse_option_def encode_cpi_def
        strtol_def strtol_sign_def isspace_def isdigit_def LONG_MAX_def c_div_def
        SENSEI_CPI_STEP_def SENSEI_CPI_MAX_def tolower_def enum_defs
        options_example_def options_0_def config_example_def new_config_0_def)
  have r: "requested_writes options_example config_example
      = [[2, 0, 2] @ replicate 29 0, [4, 0, 2] @ replicate 29 0, [3, 2, 20] @ replicate 29 0]"
    by (simp add: requested_writes_def options_example_def options_0_def config_example_def
        new_config_0_def cmd32_def enum_defs)
  have a: "apply_options env_ok options_example config_example world_0
       = Inr (0, \<lparr>calls = [Set_report ([2, 0, 2] @ replicate 29 0),
                          Set_report ([4, 0, 2] @ replicate 29 0),
                          Set_report ([3, 2, 20] @ replicate 29 0)],
                 stdout = [], stderr = []\<rparr>)"
    using apply_options_write_order [OF h, of env_ok world_0]
    by (simp add: r accepted_def env_ok_def world_0_def)
  have b: "apply_options env_polling_fails options_example config_example world_0
       = Inr (- 1, \<lparr>calls = [Set_report ([2, 0, 2] @ replicate 29 0),
                            Set_report ([4, 0, 2] @ replicate 29 0)],
                   stdout = [], stderr = []\<rparr>)"
    using apply_options_write_order [OF h, of env_polling_fails world_0]
    by (simp add: r accepted_def env_polling_fails_def env_ok_def world_0_def)
  have g: "\<not> set_cpi_off options_example" "set_cpi_on options_example"
    "1 \<le> cpi_on config_example" "cpi_on config_example \<le> 63"
    by (simp_all add: options_example_def options_0_def config_example_def new_config_0_def)
  from h(1) g p a b show ?thesis by blast
qed

section \<open>The status report\<close>

text \<open>
  C4. A successful status read takes exactly five fields from the 256-byte report, each from one
  byte at a fixed offset: intensity from 102, pulsation from 103, the CPI step with the LED off
  from 107, the one with the LED on from 108, polling from 128; \<open>mode\<close> is not read. A
  report with 3, 2, 5, 10 and 1 at these offsets is decoded as intensity medium, pulsation
  slow, steps 5 and 10, polling 1000 Hz, and displayed with 450 and 900 CPI.
\<close>

theorem sensei_load_config_decodes:
  assumes "length (get_report_data e) = 256" and "0 \<le> get_report_result e"
  shows "sensei_load_config e config w =
           ((0, \<lparr>mode = mode config,
                 cpi_off = uint (get_report_data e ! 107),
                 cpi_on = uint (get_report_data e ! 108),
                 pulsation = uint (get_report_data e ! 103),
                 intensity = uint (get_report_data e ! 102),
                 polling = uint (get_report_data e ! 128)\<rparr>), call Get_report w)
     \<and> (get_report_data e ! 102 = 3 \<and> get_report_data e ! 103 = 2 \<and> get_report_data e ! 107 = 5
          \<and> get_report_data e ! 108 = 10 \<and> get_report_data e ! 128 = 1 \<longrightarrow>
        sensei_load_config e config w =
           ((0, \<lparr>mode = mode config, cpi_off = 5, cpi_on = 10, pulsation = PULSATION_SLOW,
                 intensity = INTENSITY_MEDIUM, polling = POLLING_1000_HZ\<rparr>), call Get_report w)
        \<and> stdout (sensei_display_config (snd (fst (sensei_load_config e config w))) w) =
            stdout w @ ''Backlight intensity: medium\<newline>''
              @ ''Backlight pulsation: slow\<newline>''
              @ ''Speed in CPI (LED is off): 450\<newline>''
              @ ''Speed in CPI (LED is on): 900\<newline>''
              @ ''Polling frequency: 1000Hz\<newline>'')"
proof -
  have 1: "sensei_load_config e config w =
           ((0, \<lparr>mode = mode config,
                 cpi_off = uint (get_report_data e ! 107),
                 cpi_on = uint (get_report_data e ! 108),
                 pulsation = uint (get_report_data e ! 103),
                 intensity = uint (get_report_data e ! 102),
                 polling = uint (get_report_data e ! 128)\<rparr>), call Get_report w)"
    using assms(2) by (cases config) (simp add: sensei_load_config_def Let_def)
  have 2: "printf_d 450 = ''450''" "printf_d 900 = ''900''"
    by (simp_all add: printf_d_def dec_nat.simps)
  show ?thesis
    unfolding 1 by (simp add: enum_defs sensei_display_config_def printf_def 2)
qed

theorem sensei_load_config_decodes_witness:
  "length (get_report_data env_example) = 256 \<and> 0 \<le> get_report_result env_example
   \<and> get_report_data env_example ! 102 = 3 \<and> get_report_data env_example ! 103 = 2
   \<and> get_report_data env_example ! 107 = 5 \<and> get_report_data env_example ! 108 = 10
   \<and> get_report_data env_example ! 128 = 1
   \<and> sensei_load_config env_example uninitialised_config world_0 =
        ((0, \<lparr>mode = 0, cpi_off = 5, cpi_on = 10, pulsation = 2, intensity = 3, polling = 1\<rparr>),
         \<lparr>calls = [Get_report], stdout = [], stderr = []\<rparr>)
   \<and> apply_options env_example options_show new_config_0 world_0 =
        Inr (0, \<lparr>calls = [Get_report],
                 stdout = ''Backlight intensity: medium\<newline>''
                   @ ''Backlight pulsation: slow\<newline>''
                   @ ''Speed in CPI (LED is off): 450\<newline>''
                   @ ''Speed in CPI (LED is on): 900\<newline>''
                   @ ''Polling frequency: 1000Hz\<newline>'',
                 stderr = []\<rparr>)"
proof -
  have h: "length (get_report_data env_example) = 256" "0 \<le> get_report_result env_example"
    by (simp_all add: env_example_def env_ok_def example_report_def)
  have b: "get_report_data env_example ! 102 = 3" "get_report_data env_example ! 103 = 2"
    "get_report_data env_example ! 107 = 5" "get_report_data env_example ! 108 = 10"
    "get_report_data env_example ! 128 = 1"
    by (simp_all add: env_example_def env_ok_def example_report_def)
  note t = sensei_load_config_decodes [OF h, of uninitialised_config world_0]
  have l: "sensei_load_config env_example uninitialised_config world_0 =
        ((0, \<lparr>mode = 0, cpi_off = 5, cpi_on = 10, pulsation = 2, intensity = 3, polling = 1\<rparr>),
         \<lparr>calls = [Get_report], stdout = [], stderr = []\<rparr>)"
    using t b by (simp add: enum_defs uninitialised_config_def world_0_def call_def)
  have p: "printf_d 450 = ''450''" "printf_d 900 = ''900''"
    by (simp_all add: printf_d_def dec_nat.simps)
  have "apply_options env_example options_show new_config_0 world_0 =
        Inr (0, \<lparr>calls = [Get_report],
                 stdout = ''Backlight intensity: medium\<newline>''
                   @ ''Backlight pulsation: slow\<newline>''
                   @ ''Speed in CPI (LED is off): 450\<newline>''
                   @ ''Speed in CPI (LED is on): 900\<newline>''
                   @ ''Polling frequency: 1000Hz\<newline>'',
                 stderr = []\<rparr>)"
    by (simp add: apply_options_def options_show_def options_0_def l
        sensei_display_config_def printf_def enum_defs p)
  with h b l show ?thesis by simp
qed

section \<open>The text protocol\<close>

lemma intensity_line:
  "(if i = INTENSITY_OFF then printf ''off\<newline>'' w
    else if i = INTENSITY_LOW then printf ''low\<newline>'' w
    else if i = INTENSITY_MEDIUM then printf ''medium\<newline>'' w
    else if i = INTENSITY_HIGH then printf ''high\<newline>'' w
    else printf ''unknown\<newline>'' w) = printf (intensity_value i @ ''\<newline>'') w"
  by (simp add: intensity_value_def enum_defs)

lemma pulsation_line:
  "(if p = PULSATION_STEADY then printf ''steady\<newline>'' w
    else if p = PULSATION_SLOW then printf ''slow\<newline>'' w
    else if p = PULSATION_MEDIUM then printf ''medium\<newline>'' w
    else if p = PULSATION_FAST then printf ''fast\<newline>'' w
    else printf ''unknown\<newline>'' w) = printf (pulsation_value p @ ''\<newline>'') w"
  by (simp add: pulsation_value_def enum_defs)

lemma polling_line:
  "(if q = POLLING_1000_HZ then printf ''1000Hz\<newline>'' w
    else if q = POLLING_500_HZ then printf ''500Hz\<newline>'' w
    else if q = POLLING_250_HZ then printf ''250Hz\<newline>'' w
    else if q = POLLING_125_HZ then printf ''125Hz\<newline>'' w
    else printf ''unknown\<newline>'' w) = printf (polling_value q @ ''\<newline>'') w"
  by (simp add: polling_value_def enum_defs)

lemma sensei_display_config_lines:
  "sensei_display_config config w =
     w\<lparr>stdout := stdout w @ concat (map labelled_line (snapshot_lines config))\<rparr>"
  unfolding sensei_display_config_def Let_def intensity_line pulsation_line polling_line
  by (simp add: printf_def snapshot_lines_def labelled_line_def)

lemma dec_nat_digits: "set (dec_nat n) \<subseteq> set ''0123456789''"
proof (induction n rule: dec_nat.induct)
  case (1 n)
  have d: "''0123456789'' ! k \<in> set ''0123456789''" if "k < 10" for k
    by (rule nth_mem) (use that in simp)
  show ?case
  proof (cases "n < 10")
    case True
    with d [of n] show ?thesis by (simp add: dec_nat.simps [of n])
  next
    case False
    with "1.IH" d [of "n mod 10"] show ?thesis by (simp add: dec_nat.simps [of n])
  qed
qed

lemma printf_d_one_line: "CHR ''\<newline>'' \<notin> set (printf_d i)"
  using dec_nat_digits [of "nat i"] dec_nat_digits [of "nat (- i)"]
  by (auto simp: printf_d_def)

lemma values_one_line:
  "CHR ''\<newline>'' \<notin> set (intensity_value i)" "CHR ''\<newline>'' \<notin> set (pulsation_value p)"
  "CHR ''\<newline>'' \<notin> set (polling_value q)"
  by (auto simp: intensity_value_def pulsation_value_def polling_value_def enum_defs)

text \<open>
  C8. When the configuration is shown and the transfer succeeds, the utility prints exactly
  five lines, each a label, a colon and a value, in the order intensity, pulsation, CPI with the
  LED off, CPI with the LED on, polling. The two CPI values are the steps of the report
  multiplied by 90, a polling value in range is printed with \<open>Hz\<close> after it. A byte
  outside the range of its enumeration is no error: the value of the field is printed as
  \<open>unknown\<close>, and the operation returns 0 all the same.
\<close>

theorem show_config_text_protocol:
  assumes "show_config opts" and "0 \<le> get_report_result e"
  shows "\<exists>config.
     apply_options e opts new_config w =
       Inr (0, call Get_report (w\<lparr>stdout := stdout w @ concat (map labelled_line (snapshot_lines config))\<rparr>))
     \<and> intensity config = uint (get_report_data e ! 102)
     \<and> pulsation config = uint (get_report_data e ! 103)
     \<and> cpi_off config = uint (get_report_data e ! 107)
     \<and> cpi_on config = uint (get_report_data e ! 108)
     \<and> polling config = uint (get_report_data e ! 128)
     \<and> snapshot_lines config =
         [(''Backlight intensity'', intensity_value (intensity config)),
          (''Backlight pulsation'', pulsation_value (pulsation config)),
          (''Speed in CPI (LED is off)'', printf_d (90 * cpi_off config)),
          (''Speed in CPI (LED is on)'', printf_d (90 * cpi_on config)),
          (''Polling frequency'', polling_value (polling config))]
     \<and> list_all (\<lambda>lv. CHR ''\<newline>'' \<notin> set (snd lv)) (snapshot_lines config)
     \<and> (intensity config \<notin> {1, 2, 3, 4} \<longrightarrow> intensity_value (intensity config) = ''unknown'')
     \<and> (pulsation config \<notin> {1, 2, 3, 4} \<longrightarrow> pulsation_value (pulsation config) = ''unknown'')
     \<and> (polling config \<notin> {1, 2, 3, 4} \<longrightarrow> polling_value (polling config) = ''unknown'')
     \<and> (polling config \<in> {1, 2, 3, 4} \<longrightarrow>
          polling_value (polling config) = [''1000'', ''500'', ''250'', ''125''] ! nat (polling config - 1) @ ''Hz'')"
proof -
  define config where "config = snd (fst (sensei_load_config e uninitialised_config w))"
  have l: "sensei_load_config e uninitialised_config w = ((0, config), call Get_report w)"
    using assms(2) by (simp add: config_def sensei_load_config_def Let_def)
  have a: "apply_options e opts new_config w =
       Inr (0, call Get_report (w\<lparr>stdout := stdout w @ concat (map labelled_line (snapshot_lines config))\<rparr>))"
    using assms(1) by (simp add: apply_options_def l sensei_display_config_lines call_def)
  have f: "intensity config = uint (get_report_data e ! 102)"
    "pulsation config = uint (get_report_data e ! 103)"
    "cpi_off config = uint (get_report_data e ! 107)"
    "cpi_on config = uint (get_report_data e ! 108)"
    "polling config = uint (get_report_data e ! 128)"
    using assms(2) by (simp_all add: config_def sensei_load_config_def Let_def)
  have s: "list_all (\<lambda>lv. CHR ''\<newline>'' \<notin> set (snd lv)) (snapshot_lines config)"
    by (simp add: snapshot_lines_def values_one_line printf_d_one_line)
  have u: "intensity config \<notin> {1, 2, 3, 4} \<longrightarrow> intensity_value (intensity config) = ''unknown''"
    "pulsation config \<notin> {1, 2, 3, 4} \<longrightarrow> pulsation_value (pulsation config) = ''unknown''"
    "polling config \<notin> {1, 2, 3, 4} \<longrightarrow> polling_value (polling config) = ''unknown''"
    "polling config \<in> {1, 2, 3, 4} \<longrightarrow>
          polling_value (polling config) = [''1000'', ''500'', ''250'', ''125''] ! nat (polling config - 1) @ ''Hz''"
    by (simp_all add: intensity_value_def pulsation_value_def polling_value_def enum_defs)
  from a f s u show ?thesis
    by (intro exI [of _ config]) (simp add: snapshot_lines_def)
qed

theorem show_config_text_protocol_witness:
  "show_config options_show \<and> 0 \<le> get_report_result env_unknown
   \<and> apply_options env_unknown options_show new_config_0 world_0 =
        Inr (0, \<lparr>calls = [Get_report],
                 stdout = ''Backlight intensity: unknown\<newline>''
                   @ ''Backlight pulsation: unknown\<newline>''
                   @ ''Speed in CPI (LED is off): 0\<newline>''
                   @ ''Speed in CPI (LED is on): 0\<newline>''
                   @ ''Polling frequency: unknown\<newline>'',
                 stderr = []\<rparr>)"
proof -
  have h: "show_config options_show" "0 \<le> get_report_result env_unknown"
    by (simp_all add: options_show_def options_0_def env_unknown_def env_ok_def)
  have b: "get_report_data env_unknown ! 102 = 0" "get_report_data env_unknown ! 103 = 0"
    "get_report_data env_unknown ! 107 = 0" "get_report_data env_unknown ! 108 = 0"
    "get_report_data env_unknown ! 128 = 0"
    by (simp_all add: env_unknown_def env_ok_def)
  have p: "printf_d 0 = ''0''"
    by (simp add: printf_d_def dec_nat.simps)
  from show_config_text_protocol [OF h, of new_config_0 world_0]
  obtain config where c: "apply_options env_unknown options_show new_config_0 world_0 =
       Inr (0, call Get_report (world_0\<lparr>stdout := stdout world_0 @ concat (map labelled_line (snapshot_lines config))\<rparr>))"
    and f: "intensity config = uint (get_report_data env_unknown ! 102)"
      "pulsation config = uint (get_report_data env_unknown ! 103)"
      "cpi_off config = uint (get_report_data env_unknown ! 107)"
      "cpi_on config = uint (get_report_data env_unknown ! 108)"
      "polling config = uint (get_report_data env_unknown ! 128)"
    by blast
  have "snapshot_lines config =
     [(''Backlight intensity'', ''unknown''), (''Backlight pulsation'', ''unknown''),
      (''Speed in CPI (LED is off)'', ''0''), (''Speed in CPI (LED is on)'', ''0''),
      (''Polling frequency'', ''unknown'')]"
    by (simp add: snapshot_lines_def f b p intensity_value_def pulsation_value_def
        polling_value_def enum_defs)
  with c h show ?thesis
    by (simp add: labelled_line_def world_0_def call_def)
qed


section \<open>Showing the configuration\<close>

lemma set_reports_append: "set_reports (xs @ ys) = set_reports xs @ set_reports ys"
  by (induction xs rule: set_reports.induct) simp_all

lemmas main_defs = main_def main_discover_def main_opened_def main_claim_def
  error_4_def error_3_def error_2_def error_1_def error_0_def ERROR_def
  find_device_list_def find_device_def products_def
  USB_VENDOR_STEELSERIES_def USB_PRODUCT_STEELSERIES_SENSEI_RAW_def USB_PRODUCT_STEELSERIES_COD_BO2_def
  LIBUSB_ERROR_NOT_SUPPORTED_def call_def fprintf_stderr_def printf_def Let_def

lemma main_show_and_set:
  "main env_example cmdline_show_and_set world_0 =
     Inr (0, \<lparr>calls = [Libusb_init, Libusb_get_device_list, Libusb_get_device_descriptor sensei_raw,
                Libusb_open sensei_raw, Libusb_free_device_list, Libusb_kernel_driver_active,
                Libusb_detach_kernel_driver, Libusb_claim_interface, Get_report,
                Libusb_release_interface, Libusb_attach_kernel_driver, Libusb_close, Libusb_exit],
              stdout = ''Backlight intensity: medium\<newline>''
                   @ ''Backlight pulsation: slow\<newline>''
                   @ ''Speed in CPI (LED is off): 450\<newline>''
                   @ ''Speed in CPI (LED is on): 900\<newline>''
                   @ ''Polling frequency: 1000Hz\<newline>'',
              stderr = []\<rparr>)"
proof -
  have p: "parse_options env_example cmdline_show_and_set (options_0, new_config_0) world_0
       = Inr ((options_show_and_set, new_config_0\<lparr>mode := MODE_NORMAL\<rparr>), world_0)"
    by (simp add: parse_options_def cmdline_show_and_set_def parse_option_def tolower_def
        options_show_and_set_def options_0_def new_config_0_def)
  have d: "printf_d 450 = ''450''" "printf_d 900 = ''900''"
    by (simp_all add: printf_d_def dec_nat.simps)
  have a: "apply_options env_example options_show_and_set (new_config_0\<lparr>mode := MODE_NORMAL\<rparr>) w
     = Inr (0, w\<lparr>calls := calls w @ [Get_report],
              stdout := stdout w @ ''Backlight intensity: medium\<newline>''
                   @ ''Backlight pulsation: slow\<newline>''
                   @ ''Speed in CPI (LED is off): 450\<newline>''
                   @ ''Speed in CPI (LED is on): 900\<newline>''
                   @ ''Polling frequency: 1000Hz\<newline>''\<rparr>)" for w
    by (simp add: apply_options_def options_show_and_set_def options_0_def sensei_load_config_def
        env_example_def env_ok_def example_report_def Let_def call_def
        sensei_display_config_def printf_def enum_defs d)
  have e: "init_result env_example = 0" "device_list env_example = Some [sensei_raw]"
    "kernel_driver_active_result env_example = 1" "detach_result env_example = 0"
    "claim_result env_example = 0" "release_result env_example = 0"
    "attach_result env_example = 0"
    by (simp_all add: env_example_def env_ok_def)
  show ?thesis
    unfolding main_def p
    by (simp add: main_defs a e sensei_raw_def world_0_def)
qed

text \<open>
  C9. When the flag \<open>show_config\<close> is set, \<open>apply_options\<close> does the status read (and the
  display, when the read succeeded) and returns: its only transfer is the device-to-host one,
  no command and no save to ROM is sent, whatever the other flags of the request are, so
  nothing is written to the device.
\<close>

theorem show_config_writes_nothing:
  assumes "show_config opts"
  shows "\<exists>result w'. apply_options e opts new_config w = Inr (result, w')
     \<and> calls w' = calls w @ [Get_report]
     \<and> set_reports (calls w') = set_reports (calls w)
     \<and> stderr w' = stderr w"
  using assms
  by (simp add: apply_options_def sensei_load_config_def sensei_display_config_lines Let_def
      call_def set_reports_append)

theorem show_config_writes_nothing_witness:
  "show_config options_show_and_set
   \<and> parse_options env_example cmdline_show_and_set (options_0, new_config_0) world_0
       = Inr ((options_show_and_set, new_config_0\<lparr>mode := MODE_NORMAL\<rparr>), world_0)
   \<and> (\<exists>result w'. apply_options env_example options_show_and_set (new_config_0\<lparr>mode := MODE_NORMAL\<rparr>) world_0
          = Inr (result, w')
        \<and> calls w' = [Get_report] \<and> set_reports (calls w') = [] \<and> stderr w' = [])
   \<and> main env_example cmdline_show_and_set world_0 =
     Inr (0, \<lparr>calls = [Libusb_init, Libusb_get_device_list, Libusb_get_device_descriptor sensei_raw,
                Libusb_open sensei_raw, Libusb_free_device_list, Libusb_kernel_driver_active,
                Libusb_detach_kernel_driver, Libusb_claim_interface, Get_report,
                Libusb_release_interface, Libusb_attach_kernel_driver, Libusb_close, Libusb_exit],
              stdout = ''Backlight intensity: medium\<newline>''
                   @ ''Backlight pulsation: slow\<newline>''
                   @ ''Speed in CPI (LED is off): 450\<newline>''
                   @ ''Speed in CPI (LED is on): 900\<newline>''
                   @ ''Polling frequency: 1000Hz\<newline>'',
              stderr = []\<rparr>)"
proof -
  have h: "show_config options_show_and_set"
    by (simp add: options_show_and_set_def options_0_def)
  have p: "parse_options env_example cmdline_show_and_set (options_0, new_config_0) world_0
       = Inr ((options_show_and_set, new_config_0\<lparr>mode := MODE_NORMAL\<rparr>), world_0)"
    by (simp add: parse_options_def cmdline_show_and_set_def parse_option_def tolower_def
        options_show_and_set_def options_0_def new_config_0_def)
  from h p main_show_and_set
    show_config_writes_nothing [OF h, of env_example "new_config_0\<lparr>mode := MODE_NORMAL\<rparr>" world_0]
  show ?thesis by (simp add: world_0_def)
qed

section \<open>The options\<close>

lemma strcasecmp_0_iff: "strcasecmp a b = 0 \<longleftrightarrow> strlower a = strlower b"
  by (induction a b rule: strcasecmp.induct) (simp_all add: strlower_def)

lemma strcmp_0_iff: "strcmp a b = 0 \<longleftrightarrow> a = b"
  by (induction a b rule: strcmp.induct) simp_all

lemma lower_names: "strlower ''legacy'' = ''legacy''" "strlower ''normal'' = ''normal''"
  by (simp_all add: strlower_def tolower_def)

lemma parse_option_mode:
  "parse_option e name (CHR ''m'') optarg (opts, config) w =
     (if strlower optarg = ''legacy''
      then Inr ((opts\<lparr>set_mode := True\<rparr>, config\<lparr>mode := MODE_LEGACY\<rparr>), w)
      else if strlower optarg = ''normal''
      then Inr ((opts\<lparr>set_mode := True\<rparr>, config\<lparr>mode := MODE_NORMAL\<rparr>), w)
      else Inl (Exit EXIT_FAILURE,
                fprintf_stderr (''Error: invalid mode: '' @ optarg @ ''\<newline>'') w))"
  by (simp add: parse_option_def strcasecmp_0_iff lower_names)

lemma parse_options_loop_append:
  "parse_options_loop e name (xs @ ys) oc w =
     (case parse_options_loop e name xs oc w of
        Inl h \<Rightarrow> Inl h
      | Inr (oc1, w1) \<Rightarrow> parse_options_loop e name ys oc1 w1)"
  by (induction xs arbitrary: oc w) (auto split: sum.splits)

lemma encode_cpi_calls:
  "(case encode_cpi str w of Inl (h, w1) \<Rightarrow> calls w1 = calls w | Inr (cpi, w1) \<Rightarrow> calls w1 = calls w)"
  by (simp add: encode_cpi_def fprintf_stderr_def Let_def split: prod.splits)

lemma parse_option_calls_cases:
  "(case parse_option e name c optarg oc w of
      Inl (h, w1) \<Rightarrow> calls w1 = calls w
    | Inr (oc1, w1) \<Rightarrow> calls w1 = calls w)"
proof (cases oc)
  case (Pair opts config)
  show ?thesis
    using encode_cpi_calls [where str = optarg and w = w]
    by (simp add: Pair parse_option_def fprintf_stderr_def printf_def show_usage_def
        split: sum.splits prod.splits)
qed

lemma parse_option_calls:
  assumes "parse_option e name c optarg oc w = Inr (oc1, w1)"
  shows "calls w1 = calls w"
  using parse_option_calls_cases [where e = e and name = name and c = c and optarg = optarg and oc = oc and w = w] assms by simp

lemma parse_options_loop_calls:
  "parse_options_loop e name gs oc w = Inr (oc1, w1) \<Longrightarrow> calls w1 = calls w"
proof (induction gs arbitrary: oc w)
  case Nil
  then show ?case by simp
next
  case (Cons g gs)
  obtain c optarg where g: "g = (c, optarg)" by (cases g)
  from Cons.prems g obtain oc2 w2 where
    s: "parse_option e name c optarg oc w = Inr (oc2, w2)"
    and r: "parse_options_loop e name gs oc2 w2 = Inr (oc1, w1)"
    by (auto split: sum.splits)
  from Cons.IH [OF r] parse_option_calls [OF s] show ?case by simp
qed

text \<open>
  C10. The mode option accepts exactly the arguments that are \<open>legacy\<close> or \<open>normal\<close> once
  their capital letters are made small. For any other argument, when the options before it
  were accepted, the program prints \<open>Error: invalid mode\<close> with the argument and exits with
  the failure status, having made no call into libusb. The legacy button of the front end runs
  the utility with \<open>--mode compat\<close>, which is such an argument: that run always fails.
\<close>

theorem mode_option_legacy_or_normal:
  "parse_option e name (CHR ''m'') optarg (opts, config) w =
     (if strlower optarg = ''legacy''
      then Inr ((opts\<lparr>set_mode := True\<rparr>, config\<lparr>mode := MODE_LEGACY\<rparr>), w)
      else if strlower optarg = ''normal''
      then Inr ((opts\<lparr>set_mode := True\<rparr>, config\<lparr>mode := MODE_NORMAL\<rparr>), w)
      else Inl (Exit EXIT_FAILURE,
                fprintf_stderr (''Error: invalid mode: '' @ optarg @ ''\<newline>'') w))
   \<and> (strlower optarg \<noteq> ''legacy'' \<and> strlower optarg \<noteq> ''normal''
        \<and> argc cl \<noteq> 1 \<and> getopt_long cl = before @ (CHR ''m'', optarg) # rest
        \<and> parse_options_loop e (argv0 cl) before (options_0, new_config_0) w = Inr (oc1, w1)
      \<longrightarrow> main e cl w
            = Inl (Exit EXIT_FAILURE,
                   fprintf_stderr (''Error: invalid mode: '' @ optarg @ ''\<newline>'') w1)
          \<and> calls w1 = calls w)
   \<and> spawn_ctl_cmdline (on_set_mode_legacy e bindir)
        = Some \<lparr>argc = 3, argv0 = bindir @ ''/'' @ PROJECT_NAME e,
                getopt_long = [(CHR ''m'', ''compat'')], extra_parameters = False\<rparr>
   \<and> main e' \<lparr>argc = 3, argv0 = bindir @ ''/'' @ PROJECT_NAME e,
                getopt_long = [(CHR ''m'', ''compat'')], extra_parameters = False\<rparr> w
        = Inl (Exit EXIT_FAILURE, fprintf_stderr ''Error: invalid mode: compat\<newline>'' w)"
proof -
  have 2: "main e cl w
            = Inl (Exit EXIT_FAILURE,
                   fprintf_stderr (''Error: invalid mode: '' @ optarg @ ''\<newline>'') w1)
          \<and> calls w1 = calls w"
    if "strlower optarg \<noteq> ''legacy''" "strlower optarg \<noteq> ''normal''"
      "argc cl \<noteq> 1" "getopt_long cl = before @ (CHR ''m'', optarg) # rest"
      "parse_options_loop e (argv0 cl) before (options_0, new_config_0) w = Inr (oc1, w1)"
  proof -
    obtain o1 c1 where oc1: "oc1 = (o1, c1)" by (cases oc1)
    have "parse_options_loop e (argv0 cl) (getopt_long cl) (options_0, new_config_0) w
        = Inl (Exit EXIT_FAILURE,
               fprintf_stderr (''Error: invalid mode: '' @ optarg @ ''\<newline>'') w1)"
      using that(1,2,5) unfolding that(4) parse_options_loop_append
      by (simp add: oc1 parse_option_mode)
    then have "main e cl w
        = Inl (Exit EXIT_FAILURE,
               fprintf_stderr (''Error: invalid mode: '' @ optarg @ ''\<newline>'') w1)"
      using that(3) by (simp add: main_def parse_options_def)
    with parse_options_loop_calls [OF that(5)] show ?thesis by simp
  qed
  have 3: "spawn_ctl_cmdline (on_set_mode_legacy e bindir)
        = Some \<lparr>argc = 3, argv0 = bindir @ ''/'' @ PROJECT_NAME e,
                getopt_long = [(CHR ''m'', ''compat'')], extra_parameters = False\<rparr>"
    by (simp add: spawn_ctl_cmdline_def on_set_mode_legacy_def long_opt_def long_opts_def)
  have 4: "main e' \<lparr>argc = 3, argv0 = bindir @ ''/'' @ PROJECT_NAME e,
                getopt_long = [(CHR ''m'', ''compat'')], extra_parameters = False\<rparr> w
        = Inl (Exit EXIT_FAILURE, fprintf_stderr ''Error: invalid mode: compat\<newline>'' w)"
    by (simp add: main_def parse_options_def options_0_def new_config_0_def parse_option_mode
        strlower_def tolower_def)
  show ?thesis
    using parse_option_mode 2 3 4 by blast
qed


theorem mode_option_legacy_or_normal_witness:
  "strlower ''compat'' \<noteq> ''legacy'' \<and> strlower ''compat'' \<noteq> ''normal''
   \<and> argc cmdline_compat \<noteq> 1
   \<and> getopt_long cmdline_compat = [(CHR ''S'', [])] @ (CHR ''m'', ''compat'') # []
   \<and> parse_options_loop env_ok (argv0 cmdline_compat) [(CHR ''S'', [])] (options_0, new_config_0) world_0
       = Inr ((options_0\<lparr>save_to_rom := True\<rparr>, new_config_0), world_0)
   \<and> main env_ok cmdline_compat world_0
       = Inl (Exit 1, \<lparr>calls = [], stdout = [], stderr = ''Error: invalid mode: compat\<newline>''\<rparr>)
   \<and> parse_option env_ok ''sensei-raw-ctl'' (CHR ''m'') ''LeGaCy'' (options_0, new_config_0) world_0
       = Inr ((options_0\<lparr>set_mode := True\<rparr>, new_config_0\<lparr>mode := 1\<rparr>), world_0)"
proof -
  have h: "strlower ''compat'' \<noteq> ''legacy''" "strlower ''compat'' \<noteq> ''normal''"
    "argc cmdline_compat \<noteq> 1"
    "getopt_long cmdline_compat = [(CHR ''S'', [])] @ (CHR ''m'', ''compat'') # []"
    by (simp_all add: strlower_def tolower_def cmdline_compat_def)
  have p: "parse_options_loop env_ok (argv0 cmdline_compat) [(CHR ''S'', [])] (options_0, new_config_0) world_0
       = Inr ((options_0\<lparr>save_to_rom := True\<rparr>, new_config_0), world_0)"
    by (simp add: parse_option_def)
  have l: "strlower ''LeGaCy'' = ''legacy''"
    by (simp add: strlower_def tolower_def)
  note t = mode_option_legacy_or_normal [where e = env_ok and optarg = "''compat''"
      and cl = cmdline_compat and before = "[(CHR ''S'', [])]" and rest = "[]" and w = world_0
      and ?oc1.0 = "(options_0\<lparr>save_to_rom := True\<rparr>, new_config_0)" and ?w1.0 = world_0]
  from t h p have m: "main env_ok cmdline_compat world_0
       = Inl (Exit EXIT_FAILURE, fprintf_stderr (''Error: invalid mode: '' @ ''compat'' @ ''\<newline>'') world_0)"
    by blast
  have a: "parse_option env_ok ''sensei-raw-ctl'' (CHR ''m'') ''LeGaCy'' (options_0, new_config_0) world_0
       = Inr ((options_0\<lparr>set_mode := True\<rparr>, new_config_0\<lparr>mode := 1\<rparr>), world_0)"
    using mode_option_legacy_or_normal [where e = env_ok and name = "''sensei-raw-ctl''"
      and optarg = "''LeGaCy''" and opts = options_0 and config = new_config_0 and w = world_0]
    by (simp add: l MODE_LEGACY_def)
  from h p m a show ?thesis
    by (simp add: EXIT_FAILURE_def fprintf_stderr_def world_0_def)
qed

section \<open>Discovery\<close>

lemma opened_append: "opened (xs @ ys) = opened xs @ opened ys"
  by (induction xs rule: opened.induct) simp_all

lemma find_device_loop_found:
  "fst (find_device_loop vendor product devs w) = find (matches vendor product) devs"
  by (induction devs arbitrary: w) (simp_all add: Let_def matches_def)

lemma find_device_loop_world:
  "opened (calls (snd (find_device_loop vendor product devs w))) = opened (calls w)
   \<and> stdout (snd (find_device_loop vendor product devs w)) = stdout w
   \<and> stderr (snd (find_device_loop vendor product devs w)) = stderr w"
  by (induction devs arbitrary: w) (simp_all add: Let_def call_def opened_append)

lemma find_device_result:
  "fst (find_device e vendor product error w) =
     (case find (matches vendor product) (enumerated e) of
        None \<Rightarrow> (None, error)
      | Some d \<Rightarrow> if open_result d = 0 then (Some d, error) else (None, open_result d))"
  "opened (calls (snd (find_device e vendor product error w))) =
     opened (calls w)
     @ (case find (matches vendor product) (enumerated e) of None \<Rightarrow> [] | Some d \<Rightarrow> [d])"
  "stdout (snd (find_device e vendor product error w)) = stdout w"
  "stderr (snd (find_device e vendor product error w)) = stderr w"
proof -
  define devs where "devs = enumerated e"
  obtain found w2 where l: "find_device_loop vendor product devs (call Libusb_get_device_list w) = (found, w2)"
    by (cases "find_device_loop vendor product devs (call Libusb_get_device_list w)")
  from find_device_loop_found [of vendor product devs "call Libusb_get_device_list w"] l
  have f: "found = find (matches vendor product) devs" by simp
  from find_device_loop_world [of vendor product devs "call Libusb_get_device_list w"] l
  have w2: "opened (calls w2) = opened (calls w)" "stdout w2 = stdout w" "stderr w2 = stderr w"
    by (simp_all add: call_def opened_append)
  show "fst (find_device e vendor product error w) =
     (case find (matches vendor product) (enumerated e) of
        None \<Rightarrow> (None, error)
      | Some d \<Rightarrow> if open_result d = 0 then (Some d, error) else (None, open_result d))"
  proof (cases "device_list e")
    case None
    then show ?thesis by (simp add: find_device_def enumerated_def)
  next
    case (Some ds)
    with l f show ?thesis
      by (simp add: find_device_def enumerated_def devs_def Let_def split: option.splits)
  qed
  show "opened (calls (snd (find_device e vendor product error w))) =
     opened (calls w)
     @ (case find (matches vendor product) (enumerated e) of None \<Rightarrow> [] | Some d \<Rightarrow> [d])"
  proof (cases "device_list e")
    case None
    then show ?thesis by (simp add: find_device_def enumerated_def call_def opened_append)
  next
    case (Some ds)
    with l f w2 show ?thesis
      by (simp add: find_device_def enumerated_def devs_def Let_def call_def opened_append
          split: option.splits)
  qed
  show "stdout (snd (find_device e vendor product error w)) = stdout w"
  proof (cases "device_list e")
    case None
    then show ?thesis by (simp add: find_device_def call_def)
  next
    case (Some ds)
    with l w2 show ?thesis
      by (simp add: find_device_def enumerated_def devs_def Let_def call_def split: option.splits)
  qed
  show "stderr (snd (find_device e vendor product error w)) = stderr w"
  proof (cases "device_list e")
    case None
    then show ?thesis by (simp add: find_device_def call_def)
  next
    case (Some ds)
    with l w2 show ?thesis
      by (simp add: find_device_def enumerated_def devs_def Let_def call_def split: option.splits)
  qed
qed

lemma find_device_list_loop_result:
  "fst (find_device_list_loop e vendor ps 0 w) =
     (case first_match vendor ps (enumerated e) of
        None \<Rightarrow> (None, 0)
      | Some d \<Rightarrow> if open_result d = 0 then (Some d, 0) else (None, open_result d))
   \<and> opened (calls (snd (find_device_list_loop e vendor ps 0 w))) =
       opened (calls w) @ (case first_match vendor ps (enumerated e) of None \<Rightarrow> [] | Some d \<Rightarrow> [d])
   \<and> stdout (snd (find_device_list_loop e vendor ps 0 w)) = stdout w
   \<and> stderr (snd (find_device_list_loop e vendor ps 0 w)) = stderr w"
proof (induction ps arbitrary: w)
  case Nil
  show ?case by simp
next
  case (Cons p ps)
  obtain handle err w1 where d: "find_device e vendor p 0 w = ((handle, err), w1)"
    by (cases "find_device e vendor p 0 w") auto
  note r = find_device_result [of e vendor p 0 w, unfolded d, simplified]
  show ?case
  proof (cases "find (matches vendor p) (enumerated e)")
    case None
    with r have "handle = None" "err = 0" "opened (calls w1) = opened (calls w)"
      "stdout w1 = stdout w" "stderr w1 = stderr w"
      by simp_all
    with Cons.IH [of w1] None d show ?thesis by simp
  next
    case (Some dev)
    with r have h: "(handle, err) = (if open_result dev = 0 then (Some dev, 0) else (None, open_result dev))"
      "opened (calls w1) = opened (calls w) @ [dev]" "stdout w1 = stdout w" "stderr w1 = stderr w"
      by simp_all
    with Some d show ?thesis by (auto split: if_splits)
  qed
qed

lemma find_device_list_result:
  "fst (find_device_list e vendor ps error w) =
     (case first_match vendor ps (enumerated e) of
        None \<Rightarrow> (None, error)
      | Some d \<Rightarrow> if open_result d = 0 then (Some d, error) else (None, open_result d))"
  "opened (calls (snd (find_device_list e vendor ps error w))) =
     opened (calls w) @ (case first_match vendor ps (enumerated e) of None \<Rightarrow> [] | Some d \<Rightarrow> [d])"
  "stdout (snd (find_device_list e vendor ps error w)) = stdout w"
  "stderr (snd (find_device_list e vendor ps error w)) = stderr w"
proof -
  obtain handle err w1 where d: "find_device_list_loop e vendor ps 0 w = ((handle, err), w1)"
    by (cases "find_device_list_loop e vendor ps 0 w") auto
  note r = find_device_list_loop_result [of e vendor ps w, unfolded d, simplified]
  show "fst (find_device_list e vendor ps error w) =
     (case first_match vendor ps (enumerated e) of
        None \<Rightarrow> (None, error)
      | Some d \<Rightarrow> if open_result d = 0 then (Some d, error) else (None, open_result d))"
    using r d by (auto simp: find_device_list_def split: option.splits if_splits)
  show "opened (calls (snd (find_device_list e vendor ps error w))) =
     opened (calls w) @ (case first_match vendor ps (enumerated e) of None \<Rightarrow> [] | Some d \<Rightarrow> [d])"
    using r d by (auto simp: find_device_list_def split: option.splits)
  show "stdout (snd (find_device_list e vendor ps error w)) = stdout w"
    using r d by (auto simp: find_device_list_def split: option.splits)
  show "stderr (snd (find_device_list e vendor ps error w)) = stderr w"
    using r d by (auto simp: find_device_list_def split: option.splits)
qed

text \<open>
  C5. Discovery goes through the accepted product identifiers in the order of the list, the
  Sensei Raw \<open>0x1369\<close> before the variant \<open>0x136f\<close>, and settles on the first device
  that matches the first identifier with a match. That device is the only one it tries to
  open. When the open fails discovery fails with the error of the open, and neither another
  device nor the next identifier is tried; the program then reports that it could not open the
  device. When no device matches any identifier nothing is opened and the program reports
  \<open>no suitable device found\<close>, a different message.
\<close>

theorem discovery_first_match:
  "fst (find_device_list e vendor ps error w) =
     (case first_match vendor ps (enumerated e) of
        None \<Rightarrow> (None, error)
      | Some d \<Rightarrow> if open_result d = 0 then (Some d, error) else (None, open_result d))
   \<and> opened (calls (snd (find_device_list e vendor ps error w))) =
        opened (calls w) @ (case first_match vendor ps (enumerated e) of None \<Rightarrow> [] | Some d \<Rightarrow> [d])
   \<and> products = [0x1369, 0x136f]
   \<and> (first_match USB_VENDOR_STEELSERIES products (enumerated e) = None \<longrightarrow>
        (\<exists>w1. main_discover e opts config status w = Inr (1, w1)
           \<and> stderr w1 = stderr w @ ''Error: no suitable device found\<newline>''
           \<and> opened (calls w1) = opened (calls w)))
   \<and> (first_match USB_VENDOR_STEELSERIES products (enumerated e) = Some d \<and> open_result d \<noteq> 0 \<longrightarrow>
        (\<exists>w1. main_discover e opts config status w = Inr (1, w1)
           \<and> stderr w1 = stderr w @ ''Error: couldn't open device: ''
                @ libusb_error_name e (open_result d) @ ''\<newline>''
           \<and> opened (calls w1) = opened (calls w) @ [d]))
   \<and> ''Error: no suitable device found\<newline>''
        \<noteq> ''Error: couldn't open device: '' @ libusb_error_name e (open_result d) @ ''\<newline>''"
proof -
  obtain handle err w0 where f: "find_device_list e USB_VENDOR_STEELSERIES products 0 w = ((handle, err), w0)"
    by (cases "find_device_list e USB_VENDOR_STEELSERIES products 0 w") auto
  note r = find_device_list_result [of e USB_VENDOR_STEELSERIES products 0 w, unfolded f, simplified]
  have 1: "\<exists>w1. main_discover e opts config status w = Inr (1, w1)
           \<and> stderr w1 = stderr w @ ''Error: no suitable device found\<newline>''
           \<and> opened (calls w1) = opened (calls w)"
    if "first_match USB_VENDOR_STEELSERIES products (enumerated e) = None"
    using r that f
    by (simp add: main_discover_def error_1_def error_0_def ERROR_def fprintf_stderr_def call_def
        opened_append)
  have 2: "\<exists>w1. main_discover e opts config status w = Inr (1, w1)
           \<and> stderr w1 = stderr w @ ''Error: couldn't open device: ''
                @ libusb_error_name e (open_result d) @ ''\<newline>''
           \<and> opened (calls w1) = opened (calls w) @ [d]"
    if "first_match USB_VENDOR_STEELSERIES products (enumerated e) = Some d" "open_result d \<noteq> 0"
    using r that f
    by (simp add: main_discover_def error_1_def error_0_def ERROR_def fprintf_stderr_def call_def
        opened_append)
  have 3: "products = [0x1369, 0x136f]"
    by (simp add: products_def USB_PRODUCT_STEELSERIES_SENSEI_RAW_def USB_PRODUCT_STEELSERIES_COD_BO2_def)
  have 4: "''Error: no suitable device found\<newline>''
        \<noteq> ''Error: couldn't open device: '' @ libusb_error_name e (open_result d) @ ''\<newline>''"
    by simp
  from find_device_list_result(1,2) [of e vendor ps error w] 1 2 3 4 show ?thesis
    by blast
qed


theorem discovery_first_match_witness:
  "first_match USB_VENDOR_STEELSERIES products (enumerated env_locked) = Some sensei_raw_locked
   \<and> open_result sensei_raw_locked \<noteq> 0
   \<and> fst (find_device_list env_locked USB_VENDOR_STEELSERIES products 0 world_0) = (None, - 3)
   \<and> main_discover env_locked options_example config_example 0 world_0
       = Inr (1, \<lparr>calls = [Libusb_get_device_list, Libusb_get_device_descriptor keyboard,
                          Libusb_get_device_descriptor cod_bo2,
                          Libusb_get_device_descriptor sensei_raw_locked,
                          Libusb_open sensei_raw_locked, Libusb_free_device_list, Libusb_exit],
                 stdout = [],
                 stderr = ''Error: couldn't open device: LIBUSB_ERROR_ACCESS\<newline>''\<rparr>)
   \<and> first_match USB_VENDOR_STEELSERIES products (enumerated env_absent) = None
   \<and> main_discover env_absent options_example config_example 0 world_0
       = Inr (1, \<lparr>calls = [Libusb_get_device_list, Libusb_get_device_descriptor keyboard,
                          Libusb_free_device_list,
                          Libusb_get_device_list, Libusb_get_device_descriptor keyboard,
                          Libusb_free_device_list, Libusb_exit],
                 stdout = [],
                 stderr = ''Error: no suitable device found\<newline>''\<rparr>)"
proof -
  note d = products_def USB_VENDOR_STEELSERIES_def USB_PRODUCT_STEELSERIES_SENSEI_RAW_def
    USB_PRODUCT_STEELSERIES_COD_BO2_def enumerated_def env_locked_def env_absent_def env_ok_def
    matches_def keyboard_def cod_bo2_def sensei_raw_locked_def
  have h: "first_match USB_VENDOR_STEELSERIES products (enumerated env_locked) = Some sensei_raw_locked"
    "open_result sensei_raw_locked \<noteq> 0"
    "first_match USB_VENDOR_STEELSERIES products (enumerated env_absent) = None"
    by (simp_all add: d)
  from discovery_first_match [of env_locked USB_VENDOR_STEELSERIES products 0 world_0] h
  have f: "fst (find_device_list env_locked USB_VENDOR_STEELSERIES products 0 world_0) = (None, - 3)"
    by (simp add: sensei_raw_locked_def)
  have n: "libusb_error_name env_locked (- 3) = ''LIBUSB_ERROR_ACCESS''"
    by (simp add: env_locked_def env_ok_def error_names_def)
  have 1: "main_discover env_locked options_example config_example 0 world_0
       = Inr (1, \<lparr>calls = [Libusb_get_device_list, Libusb_get_device_descriptor keyboard,
                          Libusb_get_device_descriptor cod_bo2,
                          Libusb_get_device_descriptor sensei_raw_locked,
                          Libusb_open sensei_raw_locked, Libusb_free_device_list, Libusb_exit],
                 stdout = [],
                 stderr = ''Error: couldn't open device: LIBUSB_ERROR_ACCESS\<newline>''\<rparr>)"
    by (simp add: main_defs d world_0_def error_names_def)
  have 2: "main_discover env_absent options_example config_example 0 world_0
       = Inr (1, \<lparr>calls = [Libusb_get_device_list, Libusb_get_device_descriptor keyboard,
                          Libusb_free_device_list,
                          Libusb_get_device_list, Libusb_get_device_descriptor keyboard,
                          Libusb_free_device_list, Libusb_exit],
                 stdout = [],
                 stderr = ''Error: no suitable device found\<newline>''\<rparr>)"
    by (simp add: main_defs d world_0_def)
  from h f 1 2 show ?thesis by simp
qed

section \<open>The session\<close>

lemma main_claim_claimed:
  assumes "claim_result e = 0"
    and "apply_options e opts config (call Libusb_claim_interface w) = Inr (r, w2)"
  shows "main_claim e opts config reattach status w =
     Inr (if r \<noteq> 0 \<or> release_result e \<noteq> 0 \<or> (reattach \<and> attach_result e \<noteq> 0) then 1 else status,
          w2\<lparr>calls := calls w2 @ [Libusb_release_interface]
                  @ (if reattach then [Libusb_attach_kernel_driver] else [])
                  @ [Libusb_close, Libusb_exit],
              stderr := stderr w2
                  @ (if r \<noteq> 0
                     then ''Error: operation failed: '' @ libusb_error_name e r @ ''\<newline>''
                     else [])
                  @ (if release_result e \<noteq> 0
                     then ''Error: couldn't release interface: ''
                            @ libusb_error_name e (release_result e) @ ''\<newline>''
                     else [])
                  @ (if reattach \<and> attach_result e \<noteq> 0
                     then ''Error: couldn't reattach kernel driver: ''
                            @ libusb_error_name e (attach_result e) @ ''\<newline>''
                     else [])\<rparr>)"
  using assms
  by (simp add: main_claim_def error_4_def error_3_def error_2_def error_1_def error_0_def
      ERROR_def fprintf_stderr_def call_def Let_def)

lemma main_opened_cases:
  "main_opened e opts config status w =
     (if kernel_driver_active_result e = 0 \<or> kernel_driver_active_result e = - 12
      then main_claim e opts config False status (call Libusb_kernel_driver_active w)
      else if kernel_driver_active_result e = 1
      then (if detach_result e = 0
            then main_claim e opts config True status
                   (call Libusb_detach_kernel_driver (call Libusb_kernel_driver_active w))
            else Inr (1, w\<lparr>calls := calls w @ [Libusb_kernel_driver_active,
                                 Libusb_detach_kernel_driver, Libusb_close, Libusb_exit],
                            stderr := stderr w @ ''Error: couldn't detach kernel driver: ''
                                 @ libusb_error_name e (detach_result e) @ ''\<newline>''\<rparr>))
      else Inr (1, w\<lparr>calls := calls w @ [Libusb_kernel_driver_active, Libusb_close, Libusb_exit],
                      stderr := stderr w @ ''Error: coudn't detect kernel driver presence: ''
                           @ libusb_error_name e (kernel_driver_active_result e) @ ''\<newline>''\<rparr>))"
  by (simp add: main_opened_def LIBUSB_ERROR_NOT_SUPPORTED_def error_2_def error_1_def error_0_def
      ERROR_def fprintf_stderr_def call_def Let_def)


lemma final_world_simps [simp]:
  "final_world (Inl (h, w)) = w" "final_world (Inr (x, w)) = w"
  by (simp_all add: final_world_def)

lemma write_step_grows:
  assumes "\<And>w1. \<exists>cs. calls (final_world (cont w1)) = calls w1 @ cs \<and> list_all is_transfer cs"
  shows "\<exists>cs. calls (final_world
           (if flag then
              (case sensei_send_command e b w of
                 (result, w1) \<Rightarrow> if result \<noteq> 0 then Inr (result, w1) else cont w1)
            else cont w)) = calls w @ cs \<and> list_all is_transfer cs"
proof (cases "flag \<and> accepted e b")
  case True
  from assms [of "call (Set_report b) w"] obtain cs
    where "calls (final_world (cont (call (Set_report b) w))) = calls w @ Set_report b # cs"
      and "list_all is_transfer (Set_report b # cs)"
    by (auto simp: call_def)
  with True show ?thesis by (auto simp: send_command_step)
next
  case False
  have "list_all is_transfer [Set_report b]" by simp
  with False assms [of w] show ?thesis
    by (auto simp: send_command_step not_accepted call_def)
qed

lemma cpi_step_grows:
  assumes "\<And>w1. \<exists>cs. calls (final_world (cont w1)) = calls w1 @ cs \<and> list_all is_transfer cs"
  shows "\<exists>cs. calls (final_world
           (if flag then
              (case sensei_set_cpi e cpi led w of
                 Inl h \<Rightarrow> Inl h
               | Inr (result, w1) \<Rightarrow> if result \<noteq> 0 then Inr (result, w1) else cont w1)
            else cont w)) = calls w @ cs \<and> list_all is_transfer cs"
proof (cases "cpi \<ge> SENSEI_CPI_MIN \<and> cpi \<le> SENSEI_CPI_MAX")
  case True
  define b where "b = cmd32 [0x03, if led then 2 else 1, cpi]"
  have s: "sensei_set_cpi e cpi led w = Inr (sensei_send_command e b w)"
    using True by (simp add: sensei_set_cpi_def b_def)
  obtain r w1 where c: "sensei_send_command e b w = (r, w1)"
    by (cases "sensei_send_command e b w")
  show ?thesis
    using write_step_grows [of cont flag e b w, OF assms] unfolding s c
    by (cases flag) simp_all
next
  case False
  have "list_all is_transfer []" by simp
  with False assms [of w] show ?thesis by (auto simp: sensei_set_cpi_def)
qed

lemma apply_options_grows:
  "\<exists>cs. calls (final_world (apply_options e opts config w)) = calls w @ cs
     \<and> list_all is_transfer cs"
proof -
  have 7: "\<exists>cs. calls (final_world (apply_save_to_rom e opts w)) = calls w @ cs \<and> list_all is_transfer cs" for w
  proof (cases "save_to_rom opts")
    case True
    have "list_all is_transfer [Set_report (cmd32 [0x09, 0x00, 0x00])]" by simp
    with True show ?thesis
      by (auto simp: apply_save_to_rom_def sensei_save_to_rom_def send_command_step call_def)
  next
    case False
    have "list_all is_transfer []" by simp
    with False show ?thesis by (auto simp: apply_save_to_rom_def)
  qed
  have 6: "\<exists>cs. calls (final_world (apply_cpi_on e opts config w)) = calls w @ cs \<and> list_all is_transfer cs" for w
    unfolding apply_cpi_on_def by (rule cpi_step_grows) (rule 7)
  have 5: "\<exists>cs. calls (final_world (apply_cpi_off e opts config w)) = calls w @ cs \<and> list_all is_transfer cs" for w
    unfolding apply_cpi_off_def by (rule cpi_step_grows) (rule 6)
  have 4: "\<exists>cs. calls (final_world (apply_pulsation e opts config w)) = calls w @ cs \<and> list_all is_transfer cs" for w
    unfolding apply_pulsation_def sensei_set_pulsation_def by (rule write_step_grows) (rule 5)
  have 3: "\<exists>cs. calls (final_world (apply_intensity e opts config w)) = calls w @ cs \<and> list_all is_transfer cs" for w
    unfolding apply_intensity_def sensei_set_intensity_def by (rule write_step_grows) (rule 4)
  have 2: "\<exists>cs. calls (final_world (apply_polling e opts config w)) = calls w @ cs \<and> list_all is_transfer cs" for w
    unfolding apply_polling_def sensei_set_polling_def by (rule write_step_grows) (rule 3)
  have 1: "\<exists>cs. calls (final_world (apply_mode e opts config w)) = calls w @ cs \<and> list_all is_transfer cs" for w
    unfolding apply_mode_def sensei_set_mode_def by (rule write_step_grows) (rule 2)
  show ?thesis
  proof (cases "show_config opts")
    case True
    have "list_all is_transfer [Get_report]" by simp
    with True show ?thesis
      by (auto simp: apply_options_def sensei_load_config_def sensei_display_config_lines Let_def
          call_def)
  next
    case False
    with 1 [of w] show ?thesis by (simp add: apply_options_def)
  qed
qed

lemma main_claim_claims_first:
  "\<exists>cs. calls (final_world (main_claim e opts config reattach status w))
     = calls w @ Libusb_claim_interface # cs"
proof (cases "claim_result e = 0")
  case False
  then show ?thesis
    by (simp add: main_claim_def error_3_def error_2_def error_1_def error_0_def
        ERROR_def fprintf_stderr_def call_def Let_def)
next
  case True
  show ?thesis
  proof (cases "apply_options e opts config (call Libusb_claim_interface w)")
    case (Inl hw)
    obtain h w2 where hw: "hw = (h, w2)" by (cases hw)
    from apply_options_grows [of e opts config "call Libusb_claim_interface w"] Inl hw
    obtain cs where "calls w2 = calls w @ Libusb_claim_interface # cs"
      by (auto simp: call_def)
    with True Inl hw show ?thesis by (simp add: main_claim_def)
  next
    case (Inr rw)
    obtain r w2 where rw: "rw = (r, w2)" by (cases rw)
    from apply_options_grows [of e opts config "call Libusb_claim_interface w"] Inr rw
    obtain cs where "calls w2 = calls w @ Libusb_claim_interface # cs"
      by (auto simp: call_def)
    with main_claim_claimed [OF True, of opts config w r w2 reattach status] Inr rw
    show ?thesis by simp
  qed
qed

lemmas apply_defs = apply_options_def apply_mode_def apply_polling_def apply_intensity_def
  apply_pulsation_def apply_cpi_off_def apply_cpi_on_def apply_save_to_rom_def
  sensei_set_mode_def sensei_set_polling_def sensei_set_intensity_def sensei_set_pulsation_def
  sensei_set_cpi_def sensei_save_to_rom_def sensei_send_command_def cmd32_def
  SENSEI_CPI_MIN_def SENSEI_CPI_MAX_def
  options_example_def config_example_def options_0_def new_config_0_def

text \<open>
  C7, as the code has it. Once a device is open the query for a kernel driver has four
  outcomes. Not bound (0) goes on to the claim; so does \<open>LIBUSB_ERROR_NOT_SUPPORTED\<close>, which is
  taken as not bound and is no error. Bound (1) detaches the driver and goes on to the claim
  with \<open>reattach_driver\<close> set; when the detach fails the error is reported and the session ends
  with the handle closed and nothing else: no claim, no transfer, no release. Any other result
  is a failure of the query itself: it is reported and the session ends in the same way. The
  claim of the interface is the first call of what follows the establishment.
\<close>

theorem establishment_outcomes:
  "(kernel_driver_active_result e = 0 \<or> kernel_driver_active_result e = LIBUSB_ERROR_NOT_SUPPORTED \<longrightarrow>
      main_opened e opts config status w
        = main_claim e opts config False status (call Libusb_kernel_driver_active w))
   \<and> (kernel_driver_active_result e = 1 \<and> detach_result e = 0 \<longrightarrow>
      main_opened e opts config status w
        = main_claim e opts config True status
            (call Libusb_detach_kernel_driver (call Libusb_kernel_driver_active w)))
   \<and> (kernel_driver_active_result e = 1 \<and> detach_result e \<noteq> 0 \<longrightarrow>
      main_opened e opts config status w
        = Inr (1, w\<lparr>calls := calls w @ [Libusb_kernel_driver_active, Libusb_detach_kernel_driver,
                                      Libusb_close, Libusb_exit],
                     stderr := stderr w @ ''Error: couldn't detach kernel driver: ''
                                 @ libusb_error_name e (detach_result e) @ ''\<newline>''\<rparr>))
   \<and> (kernel_driver_active_result e \<noteq> 0 \<and> kernel_driver_active_result e \<noteq> 1
        \<and> kernel_driver_active_result e \<noteq> LIBUSB_ERROR_NOT_SUPPORTED \<longrightarrow>
      main_opened e opts config status w
        = Inr (1, w\<lparr>calls := calls w @ [Libusb_kernel_driver_active, Libusb_close, Libusb_exit],
                     stderr := stderr w @ ''Error: coudn't detect kernel driver presence: ''
                                 @ libusb_error_name e (kernel_driver_active_result e)
                                 @ ''\<newline>''\<rparr>))
   \<and> (\<exists>cs. calls (final_world (main_claim e opts config reattach status w))
          = calls w @ Libusb_claim_interface # cs)"
  using main_claim_claims_first [of e opts config reattach status w]
  by (simp add: main_opened_cases LIBUSB_ERROR_NOT_SUPPORTED_def)

theorem establishment_outcomes_witness:
  "kernel_driver_active_result env_detach_fails = 1 \<and> detach_result env_detach_fails \<noteq> 0
   \<and> main_opened env_detach_fails options_example config_example 0 world_0
       = Inr (1, \<lparr>calls = [Libusb_kernel_driver_active, Libusb_detach_kernel_driver,
                          Libusb_close, Libusb_exit],
                 stdout = [],
                 stderr = ''Error: couldn't detach kernel driver: LIBUSB_ERROR_IO\<newline>''\<rparr>)
   \<and> kernel_driver_active_result env_unsupported = LIBUSB_ERROR_NOT_SUPPORTED
   \<and> main_opened env_unsupported options_example config_example 0 world_0
       = main_claim env_unsupported options_example config_example False 0
           \<lparr>calls = [Libusb_kernel_driver_active], stdout = [], stderr = []\<rparr>"
proof -
  have h: "kernel_driver_active_result env_detach_fails = 1" "detach_result env_detach_fails \<noteq> 0"
    "kernel_driver_active_result env_unsupported = LIBUSB_ERROR_NOT_SUPPORTED"
    by (simp_all add: env_detach_fails_def env_unsupported_def env_ok_def
        LIBUSB_ERROR_NOT_SUPPORTED_def)
  have n: "libusb_error_name env_detach_fails (detach_result env_detach_fails) = ''LIBUSB_ERROR_IO''"
    by (simp add: env_detach_fails_def env_ok_def error_names_def)
  from h n
    establishment_outcomes [of env_detach_fails options_example config_example 0 world_0 False]
    establishment_outcomes [of env_unsupported options_example config_example 0 world_0 False]
  show ?thesis by (simp add: world_0_def call_def)
qed

text \<open>
  The query has an outcome beyond the three of the claim: with the result \<open>-4\<close> the
  session neither goes on to the claim nor detaches a driver.
\<close>

theorem establishment_query_failure_counterexample:
  "kernel_driver_active_result env_query_fails = - 4
   \<and> main_opened env_query_fails options_example config_example 0 world_0
       = Inr (1, \<lparr>calls = [Libusb_kernel_driver_active, Libusb_close, Libusb_exit],
                 stdout = [],
                 stderr = ''Error: coudn't detect kernel driver presence: LIBUSB_ERROR_NO_DEVICE\<newline>''\<rparr>)"
  by (simp add: main_opened_def env_query_fails_def env_ok_def error_names_def world_0_def
      LIBUSB_ERROR_NOT_SUPPORTED_def error_2_def error_1_def error_0_def ERROR_def
      fprintf_stderr_def call_def)


text \<open>
  C6, as the code has it. In a session that reaches a successful claim the calls after the
  transfers of the operation are the release, once, then the reattach, once and exactly when
  a driver was detached during the establishment, then the close (and \<open>libusb_exit\<close>),
  whether the operation and the steps before succeeded or not. Every failure of the operation,
  of the release and of the reattach is reported on the error stream, in this order, so the
  first failure of the session is the first one reported and a later one is reported after
  it; the status is 1 as soon as one of them failed, also when the operation itself succeeded.
\<close>

theorem teardown_after_claim:
  assumes "kernel_driver_active_result e = 0
           \<or> kernel_driver_active_result e = LIBUSB_ERROR_NOT_SUPPORTED
           \<or> (kernel_driver_active_result e = 1 \<and> detach_result e = 0)"
    and "claim_result e = 0"
    and "apply_options e opts config
           (w\<lparr>calls := calls w @ [Libusb_kernel_driver_active]
                  @ (if kernel_driver_active_result e = 1 then [Libusb_detach_kernel_driver] else [])
                  @ [Libusb_claim_interface]\<rparr>) = Inr (r, w2)"
  shows "main_opened e opts config status w =
     Inr (if r \<noteq> 0 \<or> release_result e \<noteq> 0
             \<or> (kernel_driver_active_result e = 1 \<and> attach_result e \<noteq> 0)
          then 1 else status,
          w2\<lparr>calls := calls w2 @ [Libusb_release_interface]
                  @ (if kernel_driver_active_result e = 1 then [Libusb_attach_kernel_driver] else [])
                  @ [Libusb_close, Libusb_exit],
              stderr := stderr w2
                  @ (if r \<noteq> 0
                     then ''Error: operation failed: '' @ libusb_error_name e r @ ''\<newline>''
                     else [])
                  @ (if release_result e \<noteq> 0
                     then ''Error: couldn't release interface: ''
                            @ libusb_error_name e (release_result e) @ ''\<newline>''
                     else [])
                  @ (if kernel_driver_active_result e = 1 \<and> attach_result e \<noteq> 0
                     then ''Error: couldn't reattach kernel driver: ''
                            @ libusb_error_name e (attach_result e) @ ''\<newline>''
                     else [])\<rparr>)
   \<and> (\<exists>cs. calls w2 = calls w @ [Libusb_kernel_driver_active]
                  @ (if kernel_driver_active_result e = 1 then [Libusb_detach_kernel_driver] else [])
                  @ [Libusb_claim_interface] @ cs
          \<and> list_all is_transfer cs)"
proof (cases "kernel_driver_active_result e = 1")
  case True
  with assms(1) have d: "detach_result e = 0"
    by (simp add: LIBUSB_ERROR_NOT_SUPPORTED_def)
  let ?w = "call Libusb_detach_kernel_driver (call Libusb_kernel_driver_active w)"
  have ap: "apply_options e opts config (call Libusb_claim_interface ?w) = Inr (r, w2)"
    using assms(3) True by (simp add: call_def)
  from apply_options_grows [of e opts config "call Libusb_claim_interface ?w"] ap
  obtain cs where "calls w2 = calls (call Libusb_claim_interface ?w) @ cs" "list_all is_transfer cs"
    by auto
  then have g: "\<exists>cs. calls w2 = calls w @ [Libusb_kernel_driver_active]
                  @ (if kernel_driver_active_result e = 1 then [Libusb_detach_kernel_driver] else [])
                  @ [Libusb_claim_interface] @ cs
          \<and> list_all is_transfer cs"
    using True by (auto simp: call_def)
  from main_claim_claimed [OF assms(2) ap, of True status] True d g show ?thesis
    by (simp add: main_opened_cases)
next
  case False
  with assms(1) have q: "kernel_driver_active_result e = 0 \<or> kernel_driver_active_result e = - 12"
    by (simp add: LIBUSB_ERROR_NOT_SUPPORTED_def)
  let ?w = "call Libusb_kernel_driver_active w"
  have ap: "apply_options e opts config (call Libusb_claim_interface ?w) = Inr (r, w2)"
    using assms(3) False by (simp add: call_def)
  from apply_options_grows [of e opts config "call Libusb_claim_interface ?w"] ap
  obtain cs where "calls w2 = calls (call Libusb_claim_interface ?w) @ cs" "list_all is_transfer cs"
    by auto
  then have g: "\<exists>cs. calls w2 = calls w @ [Libusb_kernel_driver_active]
                  @ (if kernel_driver_active_result e = 1 then [Libusb_detach_kernel_driver] else [])
                  @ [Libusb_claim_interface] @ cs
          \<and> list_all is_transfer cs"
    using False by (auto simp: call_def)
  from main_claim_claimed [OF assms(2) ap, of False status] False q g show ?thesis
    by (simp add: main_opened_cases)
qed


theorem teardown_after_claim_witness:
  "(kernel_driver_active_result env_release_fails = 0
    \<or> kernel_driver_active_result env_release_fails = LIBUSB_ERROR_NOT_SUPPORTED
    \<or> (kernel_driver_active_result env_release_fails = 1 \<and> detach_result env_release_fails = 0))
   \<and> claim_result env_release_fails = 0
   \<and> apply_options env_release_fails options_example config_example
         \<lparr>calls = [Libusb_kernel_driver_active, Libusb_detach_kernel_driver, Libusb_claim_interface],
          stdout = [], stderr = []\<rparr>
       = Inr (0, \<lparr>calls = [Libusb_kernel_driver_active, Libusb_detach_kernel_driver,
                          Libusb_claim_interface,
                          Set_report ([2, 0, 2] @ replicate 29 0),
                          Set_report ([4, 0, 2] @ replicate 29 0),
                          Set_report ([3, 2, 20] @ replicate 29 0)],
                 stdout = [], stderr = []\<rparr>)
   \<and> main_opened env_release_fails options_example config_example 0 world_0
       = Inr (1, \<lparr>calls = [Libusb_kernel_driver_active, Libusb_detach_kernel_driver,
                          Libusb_claim_interface,
                          Set_report ([2, 0, 2] @ replicate 29 0),
                          Set_report ([4, 0, 2] @ replicate 29 0),
                          Set_report ([3, 2, 20] @ replicate 29 0),
                          Libusb_release_interface, Libusb_attach_kernel_driver,
                          Libusb_close, Libusb_exit],
                 stdout = [],
                 stderr = ''Error: couldn't release interface: LIBUSB_ERROR_NO_DEVICE\<newline>''\<rparr>)"
proof -
  have f: "kernel_driver_active_result env_release_fails = 1" "detach_result env_release_fails = 0"
    "claim_result env_release_fails = 0" "release_result env_release_fails = - 4"
    "attach_result env_release_fails = 0"
    "libusb_error_name env_release_fails (- 4) = ''LIBUSB_ERROR_NO_DEVICE''"
    by (simp_all add: env_release_fails_def env_ok_def error_names_def)
  have h1: "kernel_driver_active_result env_release_fails = 0
    \<or> kernel_driver_active_result env_release_fails = LIBUSB_ERROR_NOT_SUPPORTED
    \<or> (kernel_driver_active_result env_release_fails = 1 \<and> detach_result env_release_fails = 0)"
    by (simp add: f)
  have a: "apply_options env_release_fails options_example config_example
         \<lparr>calls = [Libusb_kernel_driver_active, Libusb_detach_kernel_driver, Libusb_claim_interface],
          stdout = [], stderr = []\<rparr>
       = Inr (0, \<lparr>calls = [Libusb_kernel_driver_active, Libusb_detach_kernel_driver,
                          Libusb_claim_interface,
                          Set_report ([2, 0, 2] @ replicate 29 0),
                          Set_report ([4, 0, 2] @ replicate 29 0),
                          Set_report ([3, 2, 20] @ replicate 29 0)],
                 stdout = [], stderr = []\<rparr>)"
    by (simp add: apply_defs env_release_fails_def env_ok_def enum_defs call_def)
  have h3: "apply_options env_release_fails options_example config_example
           (world_0\<lparr>calls := calls world_0 @ [Libusb_kernel_driver_active]
                  @ (if kernel_driver_active_result env_release_fails = 1
                     then [Libusb_detach_kernel_driver] else [])
                  @ [Libusb_claim_interface]\<rparr>)
       = Inr (0, \<lparr>calls = [Libusb_kernel_driver_active, Libusb_detach_kernel_driver,
                          Libusb_claim_interface,
                          Set_report ([2, 0, 2] @ replicate 29 0),
                          Set_report ([4, 0, 2] @ replicate 29 0),
                          Set_report ([3, 2, 20] @ replicate 29 0)],
                 stdout = [], stderr = []\<rparr>)"
    using a by (simp add: f world_0_def)
  from teardown_after_claim [OF h1 f(3) h3, of 0] h1 a show ?thesis
    by (simp add: f)
qed

text \<open>
  A failure of the release is reported although the operation has failed before it: the error
  stream carries both messages.
\<close>

theorem teardown_reports_every_failure_counterexample:
  "main_opened env_write_and_release_fail options_example config_example 0 world_0
     = Inr (1, \<lparr>calls = [Libusb_kernel_driver_active, Libusb_detach_kernel_driver,
                        Libusb_claim_interface,
                        Set_report ([2, 0, 2] @ replicate 29 0),
                        Libusb_release_interface, Libusb_attach_kernel_driver,
                        Libusb_close, Libusb_exit],
               stdout = [],
               stderr = ''Error: operation failed: LIBUSB_ERROR_IO\<newline>''
                 @ ''Error: couldn't release interface: LIBUSB_ERROR_NO_DEVICE\<newline>''\<rparr>)"
proof -
  have f: "kernel_driver_active_result env_write_and_release_fail = 1"
    "detach_result env_write_and_release_fail = 0"
    "claim_result env_write_and_release_fail = 0"
    "release_result env_write_and_release_fail = - 4"
    "attach_result env_write_and_release_fail = 0"
    "libusb_error_name env_write_and_release_fail (- 4) = ''LIBUSB_ERROR_NO_DEVICE''"
    "libusb_error_name env_write_and_release_fail (- 1) = ''LIBUSB_ERROR_IO''"
    by (simp_all add: env_write_and_release_fail_def env_ok_def error_names_def)
  have a: "apply_options env_write_and_release_fail options_example config_example
         \<lparr>calls = [Libusb_kernel_driver_active, Libusb_detach_kernel_driver, Libusb_claim_interface],
          stdout = [], stderr = []\<rparr>
       = Inr (- 1, \<lparr>calls = [Libusb_kernel_driver_active, Libusb_detach_kernel_driver,
                          Libusb_claim_interface,
                          Set_report ([2, 0, 2] @ replicate 29 0)],
                 stdout = [], stderr = []\<rparr>)"
    by (simp add: apply_defs env_write_and_release_fail_def env_ok_def enum_defs call_def)
  show ?thesis
    by (simp add: main_opened_def main_claim_def error_4_def error_3_def error_2_def error_1_def
        error_0_def ERROR_def fprintf_stderr_def call_def Let_def world_0_def f a
        LIBUSB_ERROR_NOT_SUPPORTED_def)
qed

section \<open>The assertion of \<open>sensei_set_cpi\<close>\<close>

text \<open>
  The steps \<open>encode_cpi\<close> returns are between 1 and 63, and \<open>parse_options\<close> sets the flag
  of a CPI only together with such a step. So the CPI steps of the request \<open>main\<close> hands to
  \<open>apply_options\<close> are in range, and the assertion of \<open>sensei_set_cpi\<close> fails in no run of
  \<open>main\<close>.
\<close>

lemma encode_cpi_range:
  "(case encode_cpi str w of Inl hw \<Rightarrow> fst hw \<noteq> Abort | Inr (cpi, w1) \<Rightarrow> 1 \<le> cpi \<and> cpi \<le> 63)"
  by (simp add: encode_cpi_def Let_def SENSEI_CPI_MAX_def split: prod.splits)

lemma parse_option_cpi_on:
  "parse_option e name (CHR ''c'') optarg (opts, config) w =
     (case encode_cpi optarg w of
        Inl h \<Rightarrow> Inl h
      | Inr (cpi, w1) \<Rightarrow> Inr ((opts\<lparr>set_cpi_on := True\<rparr>, config\<lparr>cpi_on := cpi\<rparr>), w1))"
  by (simp add: parse_option_def)

lemma parse_option_cpi_off:
  "parse_option e name (CHR ''C'') optarg (opts, config) w =
     (case encode_cpi optarg w of
        Inl h \<Rightarrow> Inl h
      | Inr (cpi, w1) \<Rightarrow> Inr ((opts\<lparr>set_cpi_off := True\<rparr>, config\<lparr>cpi_off := cpi\<rparr>), w1))"
  by (simp add: parse_option_def)

lemma parse_option_other:
  assumes "c \<noteq> CHR ''c''" and "c \<noteq> CHR ''C''"
  shows "(case parse_option e name c optarg (opts, config) w of
            Inl hw \<Rightarrow> fst hw \<noteq> Abort
          | Inr (oc1, w1) \<Rightarrow>
              set_cpi_off (fst oc1) = set_cpi_off opts \<and> set_cpi_on (fst oc1) = set_cpi_on opts
              \<and> cpi_off (snd oc1) = cpi_off config \<and> cpi_on (snd oc1) = cpi_on config)"
  using assms by (simp add: parse_option_def)

lemma parse_option_range:
  assumes "cpi_in_range oc"
  shows "(case parse_option e name c optarg oc w of
            Inl hw \<Rightarrow> fst hw \<noteq> Abort
          | Inr (oc1, w1) \<Rightarrow> cpi_in_range oc1)"
proof (cases oc)
  case (Pair opts config)
  consider (on) "c = CHR ''c''" | (off) "c = CHR ''C''" | (other) "c \<noteq> CHR ''c''" "c \<noteq> CHR ''C''"
    by blast
  then show ?thesis
  proof cases
    case on
    show ?thesis
    proof (cases "encode_cpi optarg w")
      case (Inl hw)
      with encode_cpi_range [where str = optarg and w = w] on Pair show ?thesis
        by (simp add: parse_option_cpi_on)
    next
      case (Inr cw)
      obtain cpi w1 where cw: "cw = (cpi, w1)" by (cases cw)
      from encode_cpi_range [where str = optarg and w = w] Inr cw
      have "1 \<le> cpi" "cpi \<le> 63" by simp_all
      with assms on Pair Inr cw show ?thesis
        by (auto simp: parse_option_cpi_on cpi_in_range_def split: if_splits)
    qed
  next
    case off
    show ?thesis
    proof (cases "encode_cpi optarg w")
      case (Inl hw)
      with encode_cpi_range [where str = optarg and w = w] off Pair show ?thesis
        by (simp add: parse_option_cpi_off)
    next
      case (Inr cw)
      obtain cpi w1 where cw: "cw = (cpi, w1)" by (cases cw)
      from encode_cpi_range [where str = optarg and w = w] Inr cw
      have "1 \<le> cpi" "cpi \<le> 63" by simp_all
      with assms off Pair Inr cw show ?thesis
        by (auto simp: parse_option_cpi_off cpi_in_range_def split: if_splits)
    qed
  next
    case other
    show ?thesis
    proof (cases "parse_option e name c optarg (opts, config) w")
      case (Inl hw)
      with parse_option_other [OF other, where e = e and name = name and optarg = optarg and opts = opts and config = config and w = w] Pair show ?thesis
        by simp
    next
      case (Inr ow)
      obtain oc1 w1 where ow: "ow = (oc1, w1)" by (cases ow)
      from parse_option_other [OF other, where e = e and name = name and optarg = optarg and opts = opts and config = config and w = w] Inr ow
      have "set_cpi_off (fst oc1) = set_cpi_off opts" "set_cpi_on (fst oc1) = set_cpi_on opts"
        "cpi_off (snd oc1) = cpi_off config" "cpi_on (snd oc1) = cpi_on config"
        by simp_all
      with assms Pair Inr ow show ?thesis
        by (auto simp: cpi_in_range_def split: if_splits)
    qed
  qed
qed

lemma parse_options_loop_range:
  assumes "cpi_in_range oc"
  shows "(case parse_options_loop e name gs oc w of
            Inl hw \<Rightarrow> fst hw \<noteq> Abort
          | Inr (oc1, w1) \<Rightarrow> cpi_in_range oc1)"
  using assms
proof (induction gs arbitrary: oc w)
  case Nil
  then show ?case by simp
next
  case (Cons g gs)
  obtain c optarg where g: "g = (c, optarg)" by (cases g)
  show ?case
  proof (cases "parse_option e name c optarg oc w")
    case (Inl hw)
    with parse_option_range [OF Cons.prems, of e name c optarg w] g show ?thesis by simp
  next
    case (Inr ow)
    obtain oc1 w1 where ow: "ow = (oc1, w1)" by (cases ow)
    from parse_option_range [OF Cons.prems, of e name c optarg w] Inr ow
    have "cpi_in_range oc1" by simp
    from Cons.IH [OF this, of w1] Inr ow g show ?thesis by simp
  qed
qed


lemma parse_options_range:
  assumes "parse_options e cl (options_0, new_config_0) w = Inr ((opts, config), w1)"
  shows "set_cpi_off opts \<longrightarrow> 1 \<le> cpi_off config \<and> cpi_off config \<le> 63"
    and "set_cpi_on opts \<longrightarrow> 1 \<le> cpi_on config \<and> cpi_on config \<le> 63"
proof -
  have i: "cpi_in_range (options_0, new_config_0)"
    by (simp add: cpi_in_range_def options_0_def)
  from assms have "parse_options_loop e (argv0 cl) (getopt_long cl) (options_0, new_config_0) w
      = Inr ((opts, config), w1)"
    by (auto simp: parse_options_def split: if_splits sum.splits)
  with parse_options_loop_range [OF i, of e "argv0 cl" "getopt_long cl" w]
  have "cpi_in_range (opts, config)" by simp
  then show "set_cpi_off opts \<longrightarrow> 1 \<le> cpi_off config \<and> cpi_off config \<le> 63"
    and "set_cpi_on opts \<longrightarrow> 1 \<le> cpi_on config \<and> cpi_on config \<le> 63"
    by (auto simp: cpi_in_range_def split: if_splits)
qed

lemma parse_options_no_abort: "parse_options e cl (options_0, new_config_0) w \<noteq> Inl (Abort, w')"
proof -
  have i: "cpi_in_range (options_0, new_config_0)"
    by (simp add: cpi_in_range_def options_0_def)
  from parse_options_loop_range [OF i, of e "argv0 cl" "getopt_long cl" w]
  show ?thesis
    by (auto simp: parse_options_def split: if_splits sum.splits)
qed

lemma main_claim_no_abort:
  assumes "set_cpi_off opts \<longrightarrow> 1 \<le> cpi_off config \<and> cpi_off config \<le> 63"
    and "set_cpi_on opts \<longrightarrow> 1 \<le> cpi_on config \<and> cpi_on config \<le> 63"
  shows "\<exists>s w1. main_claim e opts config reattach status w = Inr (s, w1)"
proof (cases "claim_result e = 0")
  case False
  then show ?thesis
    by (cases "error_3 e reattach 1
          (ERROR (''couldn't claim interface: '' @ libusb_error_name e (claim_result e) @ ''\<newline>'')
             (call Libusb_claim_interface w))")
      (simp add: main_claim_def Let_def)
next
  case True
  have "\<exists>r w2. apply_options e opts config (call Libusb_claim_interface w) = Inr (r, w2)"
  proof (cases "show_config opts")
    case True
    then show ?thesis
      by (simp add: apply_options_def sensei_load_config_def Let_def)
  next
    case False
    then show ?thesis
      by (cases "write_sequence e (requested_writes opts config) (call Libusb_claim_interface w)")
        (simp add: apply_options_def apply_mode_sequence [OF assms])
  qed
  then obtain r w2 where "apply_options e opts config (call Libusb_claim_interface w) = Inr (r, w2)"
    by blast
  from main_claim_claimed [OF True this] show ?thesis by blast
qed

lemma main_never_aborts: "main e cl w \<noteq> Inl (Abort, w')"
proof (cases "parse_options e cl (options_0, new_config_0) w")
  case (Inl hw)
  with parse_options_no_abort [of e cl w] show ?thesis
    by (cases hw) (auto simp: main_def)
next
  case (Inr ow)
  obtain opts config w1 where ow: "ow = ((opts, config), w1)" by (cases ow) auto
  note r = parse_options_range [OF Inr [unfolded ow]]
  note c = main_claim_no_abort [OF r]
  have o: "\<exists>s w2. main_opened e opts config status w0 = Inr (s, w2)" for status w0
    using c [of e False status "call Libusb_kernel_driver_active w0"]
      c [of e True status "call Libusb_detach_kernel_driver (call Libusb_kernel_driver_active w0)"]
    by (auto simp: main_opened_cases)
  have d: "\<exists>s w2. main_discover e opts config status w0 = Inr (s, w2)" for status w0
  proof (cases "find_device_list e USB_VENDOR_STEELSERIES products 0 w0")
    case (Pair hr w3)
    obtain h r where hr: "hr = (h, r)" by (cases hr)
    show ?thesis
    proof (cases h)
      case None
      with Pair hr show ?thesis
        by (cases "error_1 1 (ERROR (''couldn't open device: '' @ libusb_error_name e r @ ''\<newline>'') w3)";
            cases "error_1 1 (ERROR ''no suitable device found\<newline>'' w3)")
          (simp add: main_discover_def)
    next
      case (Some dev)
      with Pair hr o [of status w3] show ?thesis
        by (simp add: main_discover_def)
    qed
  qed
  obtain s w2 where "main_discover e opts config 0 (call Libusb_init w1) = Inr (s, w2)"
    using d by blast
  with Inr ow show ?thesis
    by (cases "error_0 1 (ERROR (''libusb initialisation failed: ''
                     @ libusb_error_name e (init_result e) @ ''\<newline>'') (call Libusb_init w1))")
      (simp add: main_def Let_def)
qed

end
